theory Spec2Isabelle
  imports Complex_Main
begin

section \<open>Text and the character database\<close>

text \<open>
  A Python \<open>str\<close> is a sequence of Unicode code points, so a text is a list of
  code points. \<open>lit\<close> writes an ASCII literal of the source as such a list.
\<close>

type_synonym ustr = "nat list"

definition lit :: "string \<Rightarrow> ustr" where
  "lit s = map of_char s"

text \<open>
  \<open>homelior_rules.py\<close> reads the Unicode character database through the standard
  library only (\<open>unicodedata\<close>, \<open>str\<close> methods, the character classes of \<open>re\<close>,
  \<open>float\<close>). The tables are no part of the repository, so they are a parameter of
  every function that consults them:
  \<^item> \<open>normalize_NFKD\<close>: \<open>unicodedata.normalize("NFKD", s)\<close>;
  \<^item> \<open>combining\<close>: \<open>unicodedata.combining(c)\<close>, the canonical combining class;
  \<^item> \<open>str_lower\<close>: \<open>s.lower()\<close>;
  \<^item> \<open>isspace\<close>: the white space of \<open>\s\<close>, of \<open>str.strip()\<close> and of \<open>float\<close>;
  \<^item> \<open>todecimal\<close>: the value of a decimal digit (\<open>\d\<close>, \<open>int\<close>, \<open>float\<close>),
    \<open>None\<close> for any other character;
  \<^item> \<open>isalnum\<close>: the alphanumeric characters, which with the underscore are the
    word characters of \<open>\b\<close>;
  \<^item> \<open>ignorecase_eq c p\<close>: under \<open>re.IGNORECASE\<close> the text character \<open>c\<close>
    matches the pattern character \<open>p\<close>.
\<close>

record ucd =
  normalize_NFKD :: "ustr \<Rightarrow> ustr"
  combining :: "nat \<Rightarrow> nat"
  str_lower :: "ustr \<Rightarrow> ustr"
  isspace :: "nat \<Rightarrow> bool"
  todecimal :: "nat \<Rightarrow> nat option"
  isalnum :: "nat \<Rightarrow> bool"
  ignorecase_eq :: "nat \<Rightarrow> nat \<Rightarrow> bool"

text \<open>
  The database cut down to ASCII: it agrees with Unicode on the code points below 128
  and treats every other code point as a symbol without properties. The concrete
  evaluations below use it, on ASCII inputs only.
\<close>

definition ascii_lower :: "nat \<Rightarrow> nat" where
  "ascii_lower c = (if 65 \<le> c \<and> c \<le> 90 then c + 32 else c)"

definition ascii_ucd :: ucd where
  "ascii_ucd = \<lparr>
     normalize_NFKD = (\<lambda>s. s),
     combining = (\<lambda>c. 0),
     str_lower = map ascii_lower,
     isspace = (\<lambda>c. (9 \<le> c \<and> c \<le> 13) \<or> (28 \<le> c \<and> c \<le> 32)),
     todecimal = (\<lambda>c. if 48 \<le> c \<and> c \<le> 57 then Some (c - 48) else None),
     isalnum = (\<lambda>c. (48 \<le> c \<and> c \<le> 57) \<or> (65 \<le> c \<and> c \<le> 90) \<or> (97 \<le> c \<and> c \<le> 122)),
     ignorecase_eq = (\<lambda>c p. ascii_lower c = ascii_lower p) \<rparr>"

subsection \<open>String operations of the standard library\<close>

text \<open>\<open>s.startswith(p)\<close> and the substring test \<open>k in s\<close>.\<close>

fun startswith :: "ustr \<Rightarrow> ustr \<Rightarrow> bool" where
  "startswith [] s = True"
| "startswith (p # ps) [] = False"
| "startswith (p # ps) (c # cs) = (p = c \<and> startswith ps cs)"

fun isin :: "ustr \<Rightarrow> ustr \<Rightarrow> bool" where
  "isin k [] = (k = [])"
| "isin k (c # cs) = (startswith k (c # cs) \<or> isin k cs)"

text \<open>\<open>s.replace(old, new)\<close> for one-character \<open>old\<close>: with a one-character and
  with an empty \<open>new\<close>.\<close>

definition replace_char :: "nat \<Rightarrow> nat \<Rightarrow> ustr \<Rightarrow> ustr" where
  "replace_char old new s = map (\<lambda>c. if c = old then new else c) s"

definition remove_char :: "nat \<Rightarrow> ustr \<Rightarrow> ustr" where
  "remove_char old s = filter (\<lambda>c. c \<noteq> old) s"

text \<open>\<open>s.strip()\<close>: white space is dropped at both ends.\<close>

fun rstrip :: "(nat \<Rightarrow> bool) \<Rightarrow> ustr \<Rightarrow> ustr" where
  "rstrip ws [] = []"
| "rstrip ws (c # cs) = (let r = rstrip ws cs in if r = [] \<and> ws c then [] else c # r)"

definition strip :: "(nat \<Rightarrow> bool) \<Rightarrow> ustr \<Rightarrow> ustr" where
  "strip ws s = dropWhile ws (rstrip ws s)"

text \<open>
  \<open>re.sub(r"\s+", " ", s)\<close>: every maximal run of white space becomes one space.
  The flag says that the previous character belonged to a run already replaced.
\<close>

fun sub_ws :: "ucd \<Rightarrow> bool \<Rightarrow> ustr \<Rightarrow> ustr" where
  "sub_ws U inrun [] = []"
| "sub_ws U inrun (c # cs) =
     (if isspace U c then (if inrun then sub_ws U True cs else 32 # sub_ws U True cs)
      else c # sub_ws U False cs)"

subsection \<open>\<open>_normalize\<close>\<close>

text \<open>
  The helpers of the source whose names start with an underscore carry the prefix
  \<open>u_\<close> here. \<open>_normalize\<close> returns the empty string for an empty input; otherwise it
  decomposes (NFKD), drops the combining characters, lower-cases, replaces the no-break
  space U+00A0, collapses white space and trims.
\<close>

definition u_normalize :: "ucd \<Rightarrow> ustr \<Rightarrow> ustr" where
  "u_normalize U s =
     (if s = [] then []
      else
        let s1 = normalize_NFKD U s;
            s2 = filter (\<lambda>c. combining U c = 0) s1;
            s3 = str_lower U s2;
            s4 = replace_char 160 32 s3;
            s5 = sub_ws U False s4
        in strip (isspace U) s5)"

subsection \<open>\<open>_find_doc_by_name\<close> and the six roles\<close>

text \<open>
  The bundle is a \<open>dict\<close> iterated in insertion order, so it is the list of its
  (file name, text) items. The first file whose lower-cased name contains every keyword
  is returned with its raw and its normalised text.
\<close>

type_synonym doc = "ustr \<times> ustr \<times> ustr"

fun u_find_doc_by_name :: "ucd \<Rightarrow> (ustr \<times> ustr) list \<Rightarrow> ustr list \<Rightarrow> doc option" where
  "u_find_doc_by_name U [] keywords = None"
| "u_find_doc_by_name U ((name, content) # rest) keywords =
     (let name_norm = str_lower U name in
      if list_all (\<lambda>k. isin k name_norm) keywords
      then Some (name, content, u_normalize U content)
      else u_find_doc_by_name U rest keywords)"

text \<open>Python's \<open>a or b\<close> on two optional documents.\<close>

definition or_else :: "'a option \<Rightarrow> 'a option \<Rightarrow> 'a option" where
  "or_else a b = (case a of Some x \<Rightarrow> Some x | None \<Rightarrow> b)"

definition find_devis :: "ucd \<Rightarrow> (ustr \<times> ustr) list \<Rightarrow> doc option" where
  "find_devis U pdf_texts = u_find_doc_by_name U pdf_texts [lit ''devis'']"

definition find_cadre :: "ucd \<Rightarrow> (ustr \<times> ustr) list \<Rightarrow> doc option" where
  "find_cadre U pdf_texts = u_find_doc_by_name U pdf_texts [lit ''cadre'']"

definition find_facture :: "ucd \<Rightarrow> (ustr \<times> ustr) list \<Rightarrow> doc option" where
  "find_facture U pdf_texts = u_find_doc_by_name U pdf_texts [lit ''facture'']"

definition find_bl :: "ucd \<Rightarrow> (ustr \<times> ustr) list \<Rightarrow> doc option" where
  "find_bl U pdf_texts = u_find_doc_by_name U pdf_texts [lit ''bon'', lit ''livraison'']"

definition find_ah :: "ucd \<Rightarrow> (ustr \<times> ustr) list \<Rightarrow> doc option" where
  "find_ah U pdf_texts =
     or_else (u_find_doc_by_name U pdf_texts [lit ''ah''])
             (u_find_doc_by_name U pdf_texts [lit ''attestation'', lit ''honneur''])"

definition find_aft :: "ucd \<Rightarrow> (ustr \<times> ustr) list \<Rightarrow> doc option" where
  "find_aft U pdf_texts =
     or_else (u_find_doc_by_name U pdf_texts [lit ''aft''])
             (u_find_doc_by_name U pdf_texts [lit ''fin'', lit ''travaux''])"

section \<open>Exceptions\<close>

text \<open>
  An exception is a value: a call that may raise returns \<open>pyerror + 'a\<close>, with
  \<open>Inl\<close> for the exception. \<open>bind_err\<close> is sequencing, \<open>try_except_ValueError\<close>
  is \<open>try: ... except ValueError: ...\<close>, which lets every other exception through.
\<close>

datatype pyerror = ValueError | TypeError | AttributeError | OverflowError

definition bind_err :: "pyerror + 'a \<Rightarrow> ('a \<Rightarrow> pyerror + 'b) \<Rightarrow> pyerror + 'b" where
  "bind_err r f = (case r of Inl e \<Rightarrow> Inl e | Inr v \<Rightarrow> f v)"

definition try_except_ValueError :: "pyerror + 'a \<Rightarrow> 'a \<Rightarrow> pyerror + 'a" where
  "try_except_ValueError body handler =
     (case body of Inl ValueError \<Rightarrow> Inr handler | Inl e \<Rightarrow> Inl e | Inr v \<Rightarrow> Inr v)"

section \<open>Regular expressions\<close>

text \<open>
  The patterns of the source are sequences of literals, repeated character classes, word
  boundaries and one capturing group. A pattern is the list of its items:
  \<^item> \<open>Lit p\<close>: the characters of \<open>p\<close>;
  \<^item> \<open>Rep cls lo hi greedy\<close>: between \<open>lo\<close> and \<open>hi\<close> characters of the class
    (\<open>hi = None\<close>: unbounded), as many as possible first when greedy, as few as possible
    first otherwise; a single class \<open>[..]\<close> is \<open>Rep cls 1 (Some 1) True\<close>;
  \<^item> \<open>WordB\<close>: \<open>\b\<close>;
  \<^item> \<open>GOpen\<close>, \<open>GClose\<close>: the parentheses of group 1.
  \<open>rx_match\<close> is the backtracking matcher of \<open>re\<close> at one position: it tries the
  alternatives of each repetition in their order of preference and returns the first
  complete match, as the text of group 1 (empty for a pattern without group). Its state
  is the character before the position, the rest of the text, the rest of the text at
  the opening parenthesis, and the group. The flag \<open>ic\<close> is \<open>re.IGNORECASE\<close>; none
  of the classes used contains a cased character, so it bears on literals only.
\<close>

datatype rx =
    Lit ustr
  | Rep "nat \<Rightarrow> bool" nat "nat option" bool
  | WordB
  | GOpen
  | GClose

fun first_some :: "'a option list \<Rightarrow> 'a option" where
  "first_some [] = None"
| "first_some (Some x # xs) = Some x"
| "first_some (None # xs) = first_some xs"

definition is_word :: "ucd \<Rightarrow> nat option \<Rightarrow> bool" where
  "is_word U c = (case c of None \<Rightarrow> False | Some x \<Rightarrow> isalnum U x \<or> x = 95)"

definition advance :: "nat \<Rightarrow> nat option \<Rightarrow> ustr \<Rightarrow> nat option" where
  "advance k prev s = (case rev (take k s) of [] \<Rightarrow> prev | c # _ \<Rightarrow> Some c)"

fun lit_match :: "ucd \<Rightarrow> bool \<Rightarrow> ustr \<Rightarrow> ustr \<Rightarrow> bool" where
  "lit_match U ic [] s = True"
| "lit_match U ic (p # ps) [] = False"
| "lit_match U ic (p # ps) (c # cs) =
     ((if ic then ignorecase_eq U c p else c = p) \<and> lit_match U ic ps cs)"

definition rep_counts :: "(nat \<Rightarrow> bool) \<Rightarrow> nat \<Rightarrow> nat option \<Rightarrow> bool \<Rightarrow> ustr \<Rightarrow> nat list" where
  "rep_counts cls lo hi greedy s =
     (let n = length (takeWhile cls s);
          m = (case hi of None \<Rightarrow> n | Some h \<Rightarrow> min h n);
          ks = [lo..<Suc m]
      in if greedy then rev ks else ks)"

fun rx_match :: "ucd \<Rightarrow> bool \<Rightarrow> rx list \<Rightarrow> nat option \<Rightarrow> ustr \<Rightarrow> ustr \<Rightarrow> ustr \<Rightarrow> ustr option" where
  "rx_match U ic [] prev s gs cap = Some cap"
| "rx_match U ic (Lit p # r) prev s gs cap =
     (if lit_match U ic p s
      then rx_match U ic r (advance (length p) prev s) (drop (length p) s) gs cap
      else None)"
| "rx_match U ic (Rep cls lo hi greedy # r) prev s gs cap =
     first_some (map (\<lambda>k. rx_match U ic r (advance k prev s) (drop k s) gs cap)
                     (rep_counts cls lo hi greedy s))"
| "rx_match U ic (WordB # r) prev s gs cap =
     (if is_word U prev \<noteq> is_word U (case s of [] \<Rightarrow> None | c # _ \<Rightarrow> Some c)
      then rx_match U ic r prev s gs cap
      else None)"
| "rx_match U ic (GOpen # r) prev s gs cap = rx_match U ic r prev s s cap"
| "rx_match U ic (GClose # r) prev s gs cap =
     rx_match U ic r prev s gs (take (length gs - length s) gs)"

text \<open>
  \<open>re.search\<close>: the start positions from left to right, the end of the text included;
  the first position with a match decides. The result is \<open>m.group(1)\<close> of the match
  object, \<open>None\<close> when there is none.
\<close>

fun re_search_from :: "ucd \<Rightarrow> bool \<Rightarrow> rx list \<Rightarrow> nat option \<Rightarrow> ustr \<Rightarrow> ustr option" where
  "re_search_from U ic pat prev [] = rx_match U ic pat prev [] [] []"
| "re_search_from U ic pat prev (c # cs) =
     (case rx_match U ic pat prev (c # cs) [] [] of
        Some g \<Rightarrow> Some g
      | None \<Rightarrow> re_search_from U ic pat (Some c) cs)"

definition re_search :: "ucd \<Rightarrow> bool \<Rightarrow> rx list \<Rightarrow> ustr \<Rightarrow> ustr option" where
  "re_search U ic pat s = re_search_from U ic pat None s"

text \<open>The classes and the patterns of the source.\<close>

definition cls_d :: "ucd \<Rightarrow> nat \<Rightarrow> bool" where
  "cls_d U c = (todecimal U c \<noteq> None)"

definition star :: "(nat \<Rightarrow> bool) \<Rightarrow> rx" where
  "star cls = Rep cls 0 None True"

definition one :: "(nat \<Rightarrow> bool) \<Rightarrow> rx" where
  "one cls = Rep cls 1 (Some 1) True"

definition opt :: "(nat \<Rightarrow> bool) \<Rightarrow> rx" where
  "opt cls = Rep cls 0 (Some 1) True"

definition times :: "nat \<Rightarrow> (nat \<Rightarrow> bool) \<Rightarrow> rx" where
  "times n cls = Rep cls n (Some n) True"

text \<open>\<open>(\d{2}/\d{2}/\d{4})\<close>\<close>

definition rx_date :: "ucd \<Rightarrow> rx list" where
  "rx_date U =
     [GOpen, times 2 (cls_d U), Lit (lit ''/''), times 2 (cls_d U), Lit (lit ''/''),
      times 4 (cls_d U), GClose]"

text \<open>\<open>LABEL\s*[:\-]?\s*(\d{2}/\d{2}/\d{4})\<close>\<close>

definition rx_labelled_date :: "ucd \<Rightarrow> ustr \<Rightarrow> rx list" where
  "rx_labelled_date U label =
     [Lit label, star (isspace U), opt (\<lambda>c. c = 58 \<or> c = 45), star (isspace U)] @ rx_date U"

text \<open>\<open>(\d[\d\s]*[.,]\d{2})\<close>\<close>

definition rx_amount :: "ucd \<Rightarrow> rx list" where
  "rx_amount U =
     [GOpen, one (cls_d U), star (\<lambda>c. cls_d U c \<or> isspace U c),
      one (\<lambda>c. c = 46 \<or> c = 44), times 2 (cls_d U), GClose]"

text \<open>\<open>reste a payer\s*0\.0{2}\<close>\<close>

definition rx_reste_a_payer :: "ucd \<Rightarrow> rx list" where
  "rx_reste_a_payer U =
     [Lit (lit ''reste a payer''), star (isspace U), Lit (lit ''0''), Lit (lit ''.''),
      times 2 (\<lambda>c. c = 48)]"

section \<open>Dates\<close>

text \<open>
  A \<open>datetime.date\<close>. Its constructor raises \<open>ValueError\<close> unless the year is in
  1..9999, the month in 1..12 and the day exists in that month.
\<close>

record date =
  year :: nat
  month :: nat
  day :: nat

definition is_leap :: "nat \<Rightarrow> bool" where
  "is_leap y = (y mod 4 = 0 \<and> (y mod 100 \<noteq> 0 \<or> y mod 400 = 0))"

definition days_in_month :: "nat \<Rightarrow> nat \<Rightarrow> nat" where
  "days_in_month y m =
     (if m = 2 then (if is_leap y then 29 else 28)
      else if m = 4 \<or> m = 6 \<or> m = 9 \<or> m = 11 then 30 else 31)"

definition datetime_date :: "nat \<Rightarrow> nat \<Rightarrow> nat \<Rightarrow> pyerror + date" where
  "datetime_date y m d =
     (if 1 \<le> y \<and> y \<le> 9999 \<and> 1 \<le> m \<and> m \<le> 12 \<and> 1 \<le> d \<and> d \<le> days_in_month y m
      then Inr \<lparr>year = y, month = m, day = d\<rparr>
      else Inl ValueError)"

text \<open>The order of dates, for \<open>debut <= date_devis <= fin\<close>.\<close>

definition date_le :: "date \<Rightarrow> date \<Rightarrow> bool" where
  "date_le a b =
     (year a < year b \<or>
      (year a = year b \<and> (month a < month b \<or> (month a = month b \<and> day a \<le> day b))))"

text \<open>
  \<open>datetime.strptime(s, "%d/%m/%Y")\<close> matches the text against
  \<open>(3[0-1]|[1-2]\d|0[1-9]|[1-9]| [1-9])/(1[0-2]|0[1-9]|[1-9])/(\d\d\d\d)\<close>, raises
  \<open>ValueError\<close> when there is no match or when text remains after it, converts the
  three groups with \<open>int\<close> and builds the date. Each function below lists the ways
  one group can match a prefix of the text, in the order of the alternatives, as the
  value read and the rest of the text.
\<close>

definition is19 :: "nat \<Rightarrow> bool" where
  "is19 c = (49 \<le> c \<and> c \<le> 57)"

definition day_alts :: "ucd \<Rightarrow> ustr \<Rightarrow> (nat \<times> ustr) list" where
  "day_alts U s =
     (case s of a # b # r \<Rightarrow> (if a = 51 \<and> (b = 48 \<or> b = 49) then [(30 + (b - 48), r)] else [])
      | _ \<Rightarrow> []) @
     (case s of a # b # r \<Rightarrow>
        (if a = 49 \<or> a = 50
         then (case todecimal U b of Some v \<Rightarrow> [((a - 48) * 10 + v, r)] | None \<Rightarrow> [])
         else [])
      | _ \<Rightarrow> []) @
     (case s of a # b # r \<Rightarrow> (if a = 48 \<and> is19 b then [(b - 48, r)] else []) | _ \<Rightarrow> []) @
     (case s of a # r \<Rightarrow> (if is19 a then [(a - 48, r)] else []) | _ \<Rightarrow> []) @
     (case s of a # b # r \<Rightarrow> (if a = 32 \<and> is19 b then [(b - 48, r)] else []) | _ \<Rightarrow> [])"

definition month_alts :: "ustr \<Rightarrow> (nat \<times> ustr) list" where
  "month_alts s =
     (case s of a # b # r \<Rightarrow> (if a = 49 \<and> 48 \<le> b \<and> b \<le> 50 then [(10 + (b - 48), r)] else [])
      | _ \<Rightarrow> []) @
     (case s of a # b # r \<Rightarrow> (if a = 48 \<and> is19 b then [(b - 48, r)] else []) | _ \<Rightarrow> []) @
     (case s of a # r \<Rightarrow> (if is19 a then [(a - 48, r)] else []) | _ \<Rightarrow> [])"

definition year_alts :: "ucd \<Rightarrow> ustr \<Rightarrow> (nat \<times> ustr) list" where
  "year_alts U s =
     (case s of a # b # c # d # r \<Rightarrow>
        (case (todecimal U a, todecimal U b, todecimal U c, todecimal U d) of
           (Some x, Some y, Some z, Some w) \<Rightarrow> [(x * 1000 + y * 100 + z * 10 + w, r)]
         | _ \<Rightarrow> [])
      | _ \<Rightarrow> [])"

definition slash :: "ustr \<Rightarrow> ustr list" where
  "slash s = (case s of c # r \<Rightarrow> (if c = 47 then [r] else []) | [] \<Rightarrow> [])"

definition strptime_dmY :: "ucd \<Rightarrow> ustr \<Rightarrow> pyerror + date" where
  "strptime_dmY U s =
     (case concat (map (\<lambda>(d, r0). concat (map (\<lambda>r1. concat (map (\<lambda>(m, r2).
             concat (map (\<lambda>r3. map (\<lambda>(y, r4). (d, m, y, r4)) (year_alts U r3)) (slash r2)))
             (month_alts r1))) (slash r0))) (day_alts U s)) of
        [] \<Rightarrow> Inl ValueError
      | (d, m, y, rest) # _ \<Rightarrow> (if rest \<noteq> [] then Inl ValueError else datetime_date y m d))"

text \<open>\<open>_parse_date\<close>: \<open>except Exception\<close> turns every failure into \<open>None\<close>.\<close>

definition u_parse_date :: "ucd \<Rightarrow> ustr \<Rightarrow> date option" where
  "u_parse_date U s = (case strptime_dmY U s of Inl e \<Rightarrow> None | Inr d \<Rightarrow> Some d)"

text \<open>\<open>_find_date_any\<close>: \<open>re.search(r"\b(\d{2}/\d{2}/\d{4})\b", text)\<close>.\<close>

definition u_find_date_any :: "ucd \<Rightarrow> ustr \<Rightarrow> ustr option" where
  "u_find_date_any U txt = re_search U False ([WordB] @ rx_date U @ [WordB]) txt"

section \<open>Floating-point numbers\<close>

text \<open>
  A Python \<open>float\<close> is an IEEE 754 binary64 number: a rational of at most 53
  significant bits, an infinity or a NaN (the sign of zero plays no part in the
  comparisons of the source). \<open>round64\<close> rounds a rational to the nearest such number,
  ties to the even significand, and overflows to an infinity when the rounded magnitude
  reaches \<open>2 ^ 1024\<close>, that is when its exponent is 1024 or more: the result of every
  correctly rounded operation, of \<open>float(s)\<close> and of a literal such as \<open>0.01\<close>.
\<close>

datatype fval = Fin rat | PInf | NInf | NaN

definition pow2 :: "int \<Rightarrow> rat" where
  "pow2 k = (if 0 \<le> k then 2 ^ nat k else 1 / 2 ^ nat (- k))"

text \<open>The number of binary digits of a positive integer.\<close>

function nbits :: "int \<Rightarrow> int" where
  "nbits n = (if n \<le> 0 then 0 else 1 + nbits (n div 2))"
  by pat_completeness auto
termination
  by (relation "measure nat") auto

text \<open>The exponent \<open>e\<close> of a positive rational: \<open>2 ^ e \<le> q < 2 ^ (e + 1)\<close>.\<close>

definition flog2 :: "rat \<Rightarrow> int" where
  "flog2 q =
     (let (n, d) = quotient_of q;
          k = nbits n - nbits d
      in if pow2 k \<le> q then k else k - 1)"

definition round_half_even :: "rat \<Rightarrow> int" where
  "round_half_even r =
     (let f = \<lfloor>r\<rfloor>; d = r - of_int f
      in if d < 1 / 2 then f else if 1 / 2 < d then f + 1 else if even f then f else f + 1)"

definition round64 :: "rat \<Rightarrow> fval" where
  "round64 q =
     (if q = 0 then Fin 0
      else
        let a = \<bar>q\<bar>;
            e = max (flog2 a) (- 1022);
            ulp = pow2 (e - 52);
            r = of_int (round_half_even (a / ulp)) * ulp
        in if 1024 \<le> flog2 r then (if q < 0 then NInf else PInf)
           else Fin (if q < 0 then - r else r))"

text \<open>\<open>a - b\<close>, \<open>abs(a)\<close>, \<open>a <= b\<close> and \<open>a > b\<close> on floats.\<close>

fun fsub :: "fval \<Rightarrow> fval \<Rightarrow> fval" where
  "fsub (Fin a) (Fin b) = round64 (a - b)"
| "fsub NaN y = NaN"
| "fsub x NaN = NaN"
| "fsub PInf PInf = NaN"
| "fsub NInf NInf = NaN"
| "fsub PInf y = PInf"
| "fsub NInf y = NInf"
| "fsub (Fin a) PInf = NInf"
| "fsub (Fin a) NInf = PInf"

fun fabs :: "fval \<Rightarrow> fval" where
  "fabs (Fin a) = Fin \<bar>a\<bar>"
| "fabs PInf = PInf"
| "fabs NInf = PInf"
| "fabs NaN = NaN"

fun fle :: "fval \<Rightarrow> fval \<Rightarrow> bool" where
  "fle NaN y = False"
| "fle x NaN = False"
| "fle (Fin a) (Fin b) = (a \<le> b)"
| "fle NInf y = True"
| "fle x PInf = True"
| "fle PInf y = False"
| "fle x NInf = False"

definition fgt :: "fval \<Rightarrow> fval \<Rightarrow> bool" where
  "fgt x y = (fle y x \<and> \<not> fle x y)"

subsection \<open>\<open>float(s)\<close>\<close>

text \<open>
  \<open>float\<close> on a string first maps every character from code point 127 on to ASCII
  (white space to a space, a decimal digit to its ASCII digit, anything else to a
  question mark that ends the text), strips ASCII white space, takes out the
  underscores, which must stand between two digits, and reads the whole rest as a
  signed \<open>inf\<close>, \<open>infinity\<close>, \<open>nan\<close> or decimal numeral with an optional
  exponent. Whatever does not fit raises \<open>ValueError\<close>; a numeral too large for a
  float gives an infinity.
\<close>

fun transform_decimal_and_space :: "ucd \<Rightarrow> ustr \<Rightarrow> ustr" where
  "transform_decimal_and_space U [] = []"
| "transform_decimal_and_space U (c # cs) =
     (if c < 127 then c # transform_decimal_and_space U cs
      else if isspace U c then 32 # transform_decimal_and_space U cs
      else (case todecimal U c of
              None \<Rightarrow> [63]
            | Some d \<Rightarrow> (48 + d) # transform_decimal_and_space U cs))"

definition ascii_isspace :: "nat \<Rightarrow> bool" where
  "ascii_isspace c = (c = 32 \<or> (9 \<le> c \<and> c \<le> 13))"

definition ascii_digit :: "nat \<Rightarrow> bool" where
  "ascii_digit c = (48 \<le> c \<and> c \<le> 57)"

text \<open>The underscores: \<open>prev\<close> is the previous character, 0 at the start.\<close>

fun remove_underscores :: "nat \<Rightarrow> ustr \<Rightarrow> ustr option" where
  "remove_underscores prev [] = (if prev = 95 then None else Some [])"
| "remove_underscores prev (c # cs) =
     (if c = 95 then (if ascii_digit prev then remove_underscores c cs else None)
      else if prev = 95 \<and> \<not> ascii_digit c then None
      else map_option ((#) c) (remove_underscores c cs))"

definition digits_val :: "ustr \<Rightarrow> int" where
  "digits_val ds = foldl (\<lambda>a c. 10 * a + int (c - 48)) 0 ds"

definition pow10 :: "int \<Rightarrow> rat" where
  "pow10 k = (if 0 \<le> k then 10 ^ nat k else 1 / 10 ^ nat (- k))"

definition split_sign :: "ustr \<Rightarrow> bool \<times> ustr" where
  "split_sign s =
     (case s of [] \<Rightarrow> (False, [])
      | c # r \<Rightarrow> if c = 45 then (True, r) else if c = 43 then (False, r) else (False, c # r))"

text \<open>The exponent part: empty, or \<open>e\<close>, an optional sign and at least one digit.\<close>

definition parse_exponent :: "ustr \<Rightarrow> int option" where
  "parse_exponent s =
     (case s of [] \<Rightarrow> Some 0
      | c # r \<Rightarrow>
          if c = 101 \<or> c = 69
          then (let (neg, ds) = split_sign r
                in if ds \<noteq> [] \<and> list_all ascii_digit ds
                   then Some (if neg then - digits_val ds else digits_val ds)
                   else None)
          else None)"

definition parse_float_ascii :: "ustr \<Rightarrow> fval option" where
  "parse_float_ascii s =
     (let (neg, r) = split_sign s;
          w = map ascii_lower r
      in if w = lit ''inf'' \<or> w = lit ''infinity'' then Some (if neg then NInf else PInf)
         else if w = lit ''nan'' then Some NaN
         else
           let ip = takeWhile ascii_digit r;
               r1 = dropWhile ascii_digit r;
               (fp, r2) = (case r1 of [] \<Rightarrow> ([], [])
                           | c # r' \<Rightarrow> if c = 46
                                       then (takeWhile ascii_digit r', dropWhile ascii_digit r')
                                       else ([], c # r'))
           in if ip = [] \<and> fp = [] then None
              else (case parse_exponent r2 of
                      None \<Rightarrow> None
                    | Some e \<Rightarrow>
                        Some (round64 ((if neg then - 1 else 1) * of_int (digits_val (ip @ fp))
                                        * pow10 (e - int (length fp))))))"

definition float_py :: "ucd \<Rightarrow> ustr \<Rightarrow> pyerror + fval" where
  "float_py U s =
     (case remove_underscores 0 (strip ascii_isspace (transform_decimal_and_space U s)) of
        None \<Rightarrow> Inl ValueError
      | Some t \<Rightarrow> (case parse_float_ascii t of None \<Rightarrow> Inl ValueError | Some v \<Rightarrow> Inr v))"

definition float_lit :: "rat \<Rightarrow> fval" where
  "float_lit q = round64 q"

section \<open>\<open>analyze_homelior\<close>\<close>

subsection \<open>Inputs and result\<close>

text \<open>
  The dataclass \<open>Dossier\<close> of \<open>models.py\<close>; its attribute \<open>fields\<close>, a
  \<open>Dict[str, str]\<close>, is \<open>dossier_fields\<close> here (the record package reserves the
  shorter name).
  The result is the dictionary with the keys \<open>status\<close> and \<open>problems\<close>.
  A problem is one of the messages that the source appends; the constructor keeps the
  values that the message is formatted with:
  \<^item> \<open>DevisHeaderMissing\<close>: DEVIS, the header DEVIS 2024-xxxxx is not found;
  \<^item> \<open>DevisEclairageMissing\<close>: DEVIS, the type of lighting is not found;
  \<^item> \<open>DevisPriceOutOfRange price_str\<close>: DEVIS, P.U TTC expected near 42,315, found
    \<open>price_str\<close>;
  \<^item> \<open>DevisPriceUnparsable\<close>: DEVIS, impossible d'interpreter le P.U TTC;
  \<^item> \<open>DevisPriceMissing\<close>: DEVIS, aucun P.U TTC clair trouve;
  \<^item> \<open>DevisDateOutOfWindow d\<close>: DEVIS, the date \<open>d\<close> is not between 01/01/2024 and
    28/02/2024;
  \<^item> \<open>DevisDateUnknown\<close>: DEVIS, the date of the quote cannot be determined;
  \<^item> \<open>DevisResteMissing\<close>: DEVIS, Reste a payer 0,00 is not found;
  \<^item> \<open>DevisAbsent\<close>: no document named DEVIS;
  \<^item> \<open>CadrePhraseMissing\<close>: CADRE, the sentence "une prime d'un montant de" is not
    found;
  \<^item> \<open>CadreAmountMismatch cadre_amount prime_str\<close>: CADRE, le montant de prime
    (\<open>cadre_amount\<close>) ne correspond pas a la prime CEE saisie (\<open>prime_str\<close>);
  \<^item> \<open>CadreAmountUnparsable\<close>: CADRE, impossible d'interpreter le montant de prime
    dans le cadre;
  \<^item> \<open>CadreAmountNotFound\<close>: CADRE, the sentence with the amount is not usable;
  \<^item> \<open>CadrePrimeUnparsable prime_str\<close>: CADRE, the entered prime CEE is no number;
  \<^item> \<open>CadreDateMismatch\<close>: CADRE, la Date de cette proposition ne correspond pas a
    la date de devis;
  \<^item> \<open>CadreDateLabelMissing\<close>: CADRE, la mention Date de cette proposition n'a pas
    ete retrouvee;
  \<^item> \<open>CadreAbsent\<close>: no document named CADRE;
  \<^item> \<open>FactureResteMissing\<close>, \<open>FactureAbsent\<close>: as for the quote;
  \<^item> \<open>BLDateMismatch date_bl date_facture\<close>, \<open>BLAbsent\<close>: the delivery note;
  \<^item> \<open>AHMentionMissing\<close>, \<open>AHAbsent\<close>: the honour statement;
  \<^item> \<open>AFTDateMismatchFacture s date_facture\<close>, \<open>AFTDateMismatchBL s date_bl\<close>,
    \<open>AFTDateMissing\<close>, \<open>AFTAbsent\<close>: the completion certificate.
\<close>

record Dossier =
  ien :: ustr
  delegataire :: ustr
  client_nom :: ustr
  dossier_fields :: "ustr \<rightharpoonup> ustr"
  pdf_files :: "ustr list"

datatype problem =
    DevisHeaderMissing
  | DevisEclairageMissing
  | DevisPriceOutOfRange ustr
  | DevisPriceUnparsable
  | DevisPriceMissing
  | DevisDateOutOfWindow date
  | DevisDateUnknown
  | DevisResteMissing
  | DevisAbsent
  | CadrePhraseMissing
  | CadreAmountMismatch ustr ustr
  | CadreAmountUnparsable
  | CadreAmountNotFound
  | CadrePrimeUnparsable ustr
  | CadreDateMismatch
  | CadreDateLabelMissing
  | CadreAbsent
  | FactureResteMissing
  | FactureAbsent
  | BLDateMismatch date date
  | BLAbsent
  | AHMentionMissing
  | AHAbsent
  | AFTDateMismatchFacture ustr date
  | AFTDateMismatchBL ustr date
  | AFTDateMissing
  | AFTAbsent

record verdict =
  status :: ustr
  problems :: "problem list"

subsection \<open>1) The reference dates\<close>

text \<open>The three labelled searches of the source; all three carry \<open>re.IGNORECASE\<close>.\<close>

definition search_date_proposition :: "ucd \<Rightarrow> ustr \<Rightarrow> ustr option" where
  "search_date_proposition U txt =
     re_search U True (rx_labelled_date U (lit ''date de cette proposition'')) txt"

text \<open>\<open>devis[^0-9]{0,30}(\d{2}/\d{2}/\d{4})\<close>\<close>

definition search_devis_du :: "ucd \<Rightarrow> ustr \<Rightarrow> ustr option" where
  "search_devis_du U txt =
     re_search U True
       ([Lit (lit ''devis''), Rep (\<lambda>c. \<not> ascii_digit c) 0 (Some 30) True] @ rx_date U) txt"

definition search_date_facture :: "ucd \<Rightarrow> ustr \<Rightarrow> ustr option" where
  "search_date_facture U txt =
     re_search U True (rx_labelled_date U (lit ''date de facture'')) txt"

text \<open>1.a: the frame, "Date de cette proposition".\<close>

definition date_devis_1a :: "ucd \<Rightarrow> doc option \<Rightarrow> date option" where
  "date_devis_1a U cadre =
     (case cadre of
        None \<Rightarrow> None
      | Some (cadre_name, cadre_txt, cadre_norm) \<Rightarrow>
          (case search_date_proposition U cadre_norm of
             None \<Rightarrow> None
           | Some g \<Rightarrow> u_parse_date U g))"

text \<open>1.b: the invoice, "devis du ...", kept only when 1.a gave no date.\<close>

definition date_devis_1b :: "ucd \<Rightarrow> doc option \<Rightarrow> date option \<Rightarrow> date option" where
  "date_devis_1b U facture date_devis =
     (case facture of
        None \<Rightarrow> date_devis
      | Some (fac_name, fac_txt, fac_norm) \<Rightarrow>
          (case search_devis_du U fac_norm of
             None \<Rightarrow> date_devis
           | Some g \<Rightarrow>
               (case u_parse_date U g of
                  None \<Rightarrow> date_devis
                | Some d2 \<Rightarrow> (if date_devis = None then Some d2 else date_devis))))"

definition candidats_devis_dates :: "doc option \<Rightarrow> doc option \<Rightarrow> ustr list" where
  "candidats_devis_dates cadre facture =
     (case cadre of None \<Rightarrow> [] | Some (cadre_name, cadre_txt, cadre_norm) \<Rightarrow> [cadre_norm]) @
     (case facture of None \<Rightarrow> [] | Some (fac_name, fac_txt, fac_norm) \<Rightarrow> [fac_norm])"

text \<open>1.c: the loop over the candidate texts, left at the first date that parses.\<close>

fun first_date_of :: "ucd \<Rightarrow> ustr list \<Rightarrow> date option" where
  "first_date_of U [] = None"
| "first_date_of U (txt # rest) =
     (case u_find_date_any U txt of
        None \<Rightarrow> first_date_of U rest
      | Some s \<Rightarrow>
          (if s = [] then first_date_of U rest
           else (case u_parse_date U s of
                   None \<Rightarrow> first_date_of U rest
                 | Some d \<Rightarrow> Some d)))"

definition date_devis_1c :: "ucd \<Rightarrow> ustr list \<Rightarrow> date option \<Rightarrow> date option" where
  "date_devis_1c U candidats date_devis =
     (case date_devis of Some d \<Rightarrow> Some d | None \<Rightarrow> first_date_of U candidats)"

definition resolve_date_devis :: "ucd \<Rightarrow> doc option \<Rightarrow> doc option \<Rightarrow> date option" where
  "resolve_date_devis U cadre facture =
     date_devis_1c U (candidats_devis_dates cadre facture)
       (date_devis_1b U facture (date_devis_1a U cadre))"

text \<open>The first date found in a text, parsed (\<open>if s: d = _parse_date(s)\<close>).\<close>

definition date_any :: "ucd \<Rightarrow> ustr \<Rightarrow> date option" where
  "date_any U txt =
     (case u_find_date_any U txt of
        None \<Rightarrow> None
      | Some s \<Rightarrow> (if s = [] then None else u_parse_date U s))"

definition resolve_date_facture :: "ucd \<Rightarrow> doc option \<Rightarrow> date option" where
  "resolve_date_facture U facture =
     (case facture of
        None \<Rightarrow> None
      | Some (fac_name, fac_txt, fac_norm) \<Rightarrow>
          (case search_date_facture U fac_norm of
             Some g \<Rightarrow> u_parse_date U g
           | None \<Rightarrow> date_any U fac_norm))"

definition resolve_date_bl :: "ucd \<Rightarrow> doc option \<Rightarrow> date option" where
  "resolve_date_bl U bl =
     (case bl of None \<Rightarrow> None | Some (bl_name, bl_txt, bl_norm) \<Rightarrow> date_any U bl_norm)"

subsection \<open>2) The quote\<close>

text \<open>\<open>devis\s+2024[- ]?\d{4,}\<close>\<close>

definition rx_devis_header :: "ucd \<Rightarrow> rx list" where
  "rx_devis_header U =
     [Lit (lit ''devis''), Rep (isspace U) 1 None True, Lit (lit ''2024''),
      opt (\<lambda>c. c = 45 \<or> c = 32), Rep (cls_d U) 4 None True]"

definition has_eclairage_ambiance_global :: "ustr \<Rightarrow> doc option \<Rightarrow> doc option \<Rightarrow> bool" where
  "has_eclairage_ambiance_global devis_norm facture ah =
     (let targets =
            [devis_norm] @
            (case facture of None \<Rightarrow> [] | Some (fac_name, fac_txt, fac_norm) \<Rightarrow> [fac_norm]) @
            (case ah of None \<Rightarrow> [] | Some (ah_name, ah_txt, ah_norm) \<Rightarrow> [ah_norm])
      in list_ex (\<lambda>txt. (isin (lit ''type d eclairage'') txt \<or> isin (lit ''type d'eclairage'') txt)
                        \<and> isin (lit ''eclairage ambiance'') txt
                        \<and> isin (lit ''prive'') txt) targets)"

text \<open>\<open>mise en place de luminaires neufs.*?(\d[\d\s]*[.,]\d{2})\<close>; the dot matches every
  character but the line feed.\<close>

definition search_price :: "ucd \<Rightarrow> ustr \<Rightarrow> ustr option" where
  "search_price U zone =
     re_search U False
       ([Lit (lit ''mise en place de luminaires neufs''), Rep (\<lambda>c. c \<noteq> 10) 0 None False]
        @ rx_amount U) zone"

text \<open>2.c: the unit price, with its \<open>try ... except ValueError\<close>.\<close>

definition rule_devis_price :: "ucd \<Rightarrow> ustr \<Rightarrow> pyerror + problem list" where
  "rule_devis_price U devis_norm =
     (if isin (lit ''mise en place de luminaires neufs'') devis_norm
      then (case search_price U devis_norm of
              Some price_str \<Rightarrow>
                (let price_norm = replace_char 44 46 (remove_char 32 price_str)
                 in try_except_ValueError
                      (bind_err (float_py U price_norm) (\<lambda>price_val.
                         Inr (if \<not> (fle (float_lit 42) price_val \<and> fle price_val (float_lit 43))
                              then [DevisPriceOutOfRange price_str] else [])))
                      [DevisPriceUnparsable])
            | None \<Rightarrow> Inr [DevisPriceMissing])
      else Inr [])"

text \<open>2.d: the window from 01/01/2024 to 28/02/2024.\<close>

definition rule_devis_date :: "date option \<Rightarrow> problem list" where
  "rule_devis_date date_devis =
     (case date_devis of
        Some d \<Rightarrow>
          (let debut = \<lparr>year = 2024, month = 1, day = 1\<rparr>;
               fin = \<lparr>year = 2024, month = 2, day = 28\<rparr>
           in if \<not> (date_le debut d \<and> date_le d fin) then [DevisDateOutOfWindow d] else [])
      | None \<Rightarrow> [DevisDateUnknown])"

text \<open>2.e and 4.b: "reste a payer 0,00", searched after the comma has become a dot.\<close>

definition has_reste_a_payer :: "ucd \<Rightarrow> ustr \<Rightarrow> bool" where
  "has_reste_a_payer U doc_norm =
     (let sp1 = replace_char 160 32 doc_norm;
          sp2 = replace_char 44 46 sp1;
          sp3 = sub_ws U False sp2
      in re_search U False (rx_reste_a_payer U) sp3 \<noteq> None)"

definition rule_devis ::
  "ucd \<Rightarrow> doc option \<Rightarrow> doc option \<Rightarrow> doc option \<Rightarrow> date option \<Rightarrow> pyerror + problem list" where
  "rule_devis U devis facture ah date_devis =
     (case devis of
        Some (devis_name, devis_txt, devis_norm) \<Rightarrow>
          bind_err (rule_devis_price U devis_norm) (\<lambda>p_price.
            Inr ((if re_search U False (rx_devis_header U) devis_norm = None
                  then [DevisHeaderMissing] else [])
                 @ (if \<not> has_eclairage_ambiance_global devis_norm facture ah
                    then [DevisEclairageMissing] else [])
                 @ p_price
                 @ rule_devis_date date_devis
                 @ (if \<not> has_reste_a_payer U devis_norm then [DevisResteMissing] else [])))
      | None \<Rightarrow> Inr [DevisAbsent])"

subsection \<open>3) The contribution frame\<close>

text \<open>\<open>une prime d un montant de\s+(\d[\d\s]*[.,]\d{2})\<close>\<close>

definition search_prime :: "ucd \<Rightarrow> ustr \<Rightarrow> ustr option" where
  "search_prime U cadre_norm =
     re_search U False
       ([Lit (lit ''une prime d un montant de''), Rep (isspace U) 1 None True] @ rx_amount U)
       cadre_norm"

text \<open>
  3.a: the amount of the frame against the field "Prime CEE". The outer \<open>try\<close> covers
  the conversion of the field and all that follows it, the inner one the conversion of
  the amount of the frame.
\<close>

definition rule_cadre_prime :: "ucd \<Rightarrow> Dossier \<Rightarrow> ustr \<Rightarrow> pyerror + problem list" where
  "rule_cadre_prime U dossier cadre_norm =
     (if \<not> isin (lit ''une prime d un montant de'') cadre_norm then Inr [CadrePhraseMissing]
      else
        let prime_str = strip (isspace U)
                          (case dossier_fields dossier (lit ''Prime CEE'') of
                             None \<Rightarrow> [] | Some v \<Rightarrow> v)
        in if prime_str \<noteq> []
           then
             (let prime_norm = replace_char 44 46 (remove_char 160 (remove_char 32 prime_str))
              in try_except_ValueError
                   (bind_err (float_py U prime_norm) (\<lambda>prime_val.
                      (case search_prime U cadre_norm of
                         Some cadre_amount \<Rightarrow>
                           (let cadre_amount_norm =
                                  replace_char 44 46 (remove_char 160 (remove_char 32 cadre_amount))
                            in try_except_ValueError
                                 (bind_err (float_py U cadre_amount_norm) (\<lambda>cadre_val.
                                    Inr (if fgt (fabs (fsub cadre_val prime_val)) (float_lit (1 / 100))
                                         then [CadreAmountMismatch cadre_amount prime_str]
                                         else [])))
                                 [CadreAmountUnparsable])
                       | None \<Rightarrow> Inr [CadreAmountNotFound])))
                   [CadrePrimeUnparsable prime_str])
           else Inr [])"

text \<open>3.b: the date of the proposal against the date of the quote.\<close>

definition rule_cadre_date :: "ucd \<Rightarrow> ustr \<Rightarrow> date option \<Rightarrow> problem list" where
  "rule_cadre_date U cadre_norm date_devis =
     (case search_date_proposition U cadre_norm of
        Some g \<Rightarrow>
          (case date_devis of
             Some dd \<Rightarrow>
               (case u_parse_date U g of
                  Some d_prop \<Rightarrow> (if d_prop \<noteq> dd then [CadreDateMismatch] else [])
                | None \<Rightarrow> [])
           | None \<Rightarrow> [])
      | None \<Rightarrow> [CadreDateLabelMissing])"

definition rule_cadre ::
  "ucd \<Rightarrow> Dossier \<Rightarrow> doc option \<Rightarrow> date option \<Rightarrow> pyerror + problem list" where
  "rule_cadre U dossier cadre date_devis =
     (case cadre of
        Some (cadre_name, cadre_txt, cadre_norm) \<Rightarrow>
          bind_err (rule_cadre_prime U dossier cadre_norm) (\<lambda>p_prime.
            Inr (p_prime @ rule_cadre_date U cadre_norm date_devis))
      | None \<Rightarrow> Inr [CadreAbsent])"

subsection \<open>4) to 7) Invoice, delivery note, honour statement, completion certificate\<close>

definition rule_facture :: "ucd \<Rightarrow> doc option \<Rightarrow> problem list" where
  "rule_facture U facture =
     (case facture of
        Some (fac_name, fac_txt, fac_norm) \<Rightarrow>
          (if \<not> has_reste_a_payer U fac_norm then [FactureResteMissing] else [])
      | None \<Rightarrow> [FactureAbsent])"

definition rule_bl :: "doc option \<Rightarrow> date option \<Rightarrow> date option \<Rightarrow> problem list" where
  "rule_bl bl date_facture date_bl =
     (case bl of
        Some (bl_name, bl_txt, bl_norm) \<Rightarrow>
          (case (date_facture, date_bl) of
             (Some df, Some db) \<Rightarrow> (if df \<noteq> db then [BLDateMismatch db df] else [])
           | _ \<Rightarrow> [])
      | None \<Rightarrow> [BLAbsent])"

definition rule_ah :: "doc option \<Rightarrow> problem list" where
  "rule_ah ah =
     (case ah of
        Some (ah_name, ah_txt, ah_norm) \<Rightarrow>
          (if \<not> isin (lit ''attestation sur l honneur'') ah_norm
              \<and> \<not> isin (lit ''attestation sur l'honneur'') ah_norm
           then [AHMentionMissing] else [])
      | None \<Rightarrow> [AHAbsent])"

text \<open>\<open>\ble\s*[:\-]?\s*(\d{2}/\d{2}/\d{4})\<close>\<close>

definition search_le :: "ucd \<Rightarrow> ustr \<Rightarrow> ustr option" where
  "search_le U aft_norm = re_search U False ([WordB] @ rx_labelled_date U (lit ''le'')) aft_norm"

definition rule_aft :: "ucd \<Rightarrow> doc option \<Rightarrow> date option \<Rightarrow> date option \<Rightarrow> problem list" where
  "rule_aft U aft date_facture date_bl =
     (case aft of
        Some (aft_name, aft_txt, aft_norm) \<Rightarrow>
          (case search_le U aft_norm of
             Some g \<Rightarrow>
               (let d_aft = u_parse_date U g
                in (case (d_aft, date_facture) of
                      (Some da, Some df) \<Rightarrow> (if da \<noteq> df then [AFTDateMismatchFacture g df] else [])
                    | _ \<Rightarrow> [])
                   @ (case (d_aft, date_bl) of
                        (Some da, Some db) \<Rightarrow> (if da \<noteq> db then [AFTDateMismatchBL g db] else [])
                      | _ \<Rightarrow> []))
           | None \<Rightarrow> [AFTDateMissing])
      | None \<Rightarrow> [AFTAbsent])"

subsection \<open>8) The whole analysis\<close>

definition analyze_homelior :: "ucd \<Rightarrow> Dossier \<Rightarrow> (ustr \<times> ustr) list \<Rightarrow> pyerror + verdict" where
  "analyze_homelior U dossier pdf_texts =
     (let devis = find_devis U pdf_texts;
          cadre = find_cadre U pdf_texts;
          facture = find_facture U pdf_texts;
          bl = find_bl U pdf_texts;
          ah = find_ah U pdf_texts;
          aft = find_aft U pdf_texts;
          date_devis = resolve_date_devis U cadre facture;
          date_facture = resolve_date_facture U facture;
          date_bl = resolve_date_bl U bl
      in bind_err (rule_devis U devis facture ah date_devis) (\<lambda>p_devis.
         bind_err (rule_cadre U dossier cadre date_devis) (\<lambda>p_cadre.
           let problems = p_devis @ p_cadre @ rule_facture U facture
                          @ rule_bl bl date_facture date_bl @ rule_ah ah
                          @ rule_aft U aft date_facture date_bl
           in Inr \<lparr>status = (if problems = [] then lit ''conforme'' else lit ''non_conforme''),
                   problems = problems\<rparr>)))"

section \<open>Predicates of the statements\<close>

text \<open>
  \<open>ws_ok U inrun s\<close>: the white space of \<open>s\<close> is made of single spaces (\<open>inrun\<close>: the
  character before \<open>s\<close> was white space), the form that \<open>re.sub(r"\s+", " ", s)\<close>
  leaves behind.
\<close>

fun ws_ok :: "ucd \<Rightarrow> bool \<Rightarrow> ustr \<Rightarrow> bool" where
  "ws_ok U inrun [] = True"
| "ws_ok U inrun (c # cs) =
     (if isspace U c then \<not> inrun \<and> c = 32 \<and> ws_ok U True cs else ws_ok U False cs)"

text \<open>
  What idempotence of \<open>_normalize\<close> needs from the character database: a set \<open>S\<close> of
  code points that holds the space and every character that decomposing, dropping the
  combining characters and lower-casing can produce, and whose texts these three steps
  leave alone. In Unicode \<open>S\<close> is the set of the lower-case or caseless characters
  without decomposition and of combining class 0.
\<close>

definition stable_under :: "ucd \<Rightarrow> nat set \<Rightarrow> bool" where
  "stable_under U S =
     (32 \<in> S \<and>
      (\<forall>s. set (str_lower U (filter (\<lambda>c. combining U c = 0) (normalize_NFKD U s))) \<subseteq> S) \<and>
      (\<forall>t. set t \<subseteq> S \<longrightarrow>
         normalize_NFKD U t = t \<and> str_lower U t = t \<and> filter (\<lambda>c. combining U c = 0) t = t))"

text \<open>
  The check of the source that a problem belongs to, named after the comments of
  \<open>analyze_homelior\<close> (2.a to 2.e for the quote, 3.a and 3.b for the frame, and so on).
\<close>

fun check_of :: "problem \<Rightarrow> string" where
  "check_of DevisHeaderMissing = ''2.a''"
| "check_of DevisEclairageMissing = ''2.b''"
| "check_of (DevisPriceOutOfRange s) = ''2.c''"
| "check_of DevisPriceUnparsable = ''2.c''"
| "check_of DevisPriceMissing = ''2.c''"
| "check_of (DevisDateOutOfWindow d) = ''2.d''"
| "check_of DevisDateUnknown = ''2.d''"
| "check_of DevisResteMissing = ''2.e''"
| "check_of DevisAbsent = ''2''"
| "check_of CadrePhraseMissing = ''3.a''"
| "check_of (CadreAmountMismatch a p) = ''3.a''"
| "check_of CadreAmountUnparsable = ''3.a''"
| "check_of CadreAmountNotFound = ''3.a''"
| "check_of (CadrePrimeUnparsable p) = ''3.a''"
| "check_of CadreDateMismatch = ''3.b''"
| "check_of CadreDateLabelMissing = ''3.b''"
| "check_of CadreAbsent = ''3''"
| "check_of FactureResteMissing = ''4.b''"
| "check_of FactureAbsent = ''4''"
| "check_of (BLDateMismatch b f) = ''5''"
| "check_of BLAbsent = ''5''"
| "check_of AHMentionMissing = ''6''"
| "check_of AHAbsent = ''6''"
| "check_of (AFTDateMismatchFacture s d) = ''7''"
| "check_of (AFTDateMismatchBL s d) = ''7''"
| "check_of AFTDateMissing = ''7''"
| "check_of AFTAbsent = ''7''"

text \<open>
  The fallback chain for the date of the quote as the specification words it: four
  steps, the first that yields a date wins. Step 1 is the labelled date of the proposal
  on the frame, step 2 the cross-reference "devis ... dd/mm/yyyy" on the invoice, step 3
  the first bare date of the frame, step 4 the first bare date of the invoice.
\<close>

definition spec_quote_date_chain :: "ucd \<Rightarrow> doc option \<Rightarrow> doc option \<Rightarrow> date option" where
  "spec_quote_date_chain U cadre facture =
     (let step1 = (case cadre of None \<Rightarrow> None
                   | Some (cadre_name, cadre_txt, cadre_norm) \<Rightarrow>
                       Option.bind (search_date_proposition U cadre_norm) (u_parse_date U));
          step2 = (case facture of None \<Rightarrow> None
                   | Some (fac_name, fac_txt, fac_norm) \<Rightarrow>
                       Option.bind (search_devis_du U fac_norm) (u_parse_date U));
          step3 = (case cadre of None \<Rightarrow> None
                   | Some (cadre_name, cadre_txt, cadre_norm) \<Rightarrow> date_any U cadre_norm);
          step4 = (case facture of None \<Rightarrow> None
                   | Some (fac_name, fac_txt, fac_norm) \<Rightarrow> date_any U fac_norm)
      in if step1 \<noteq> None then step1
         else if step2 \<noteq> None then step2
         else if step3 \<noteq> None then step3
         else step4)"

text \<open>A complete, compliant bundle and its case, for the concrete evaluations.\<close>

definition example_dossier :: "ustr \<Rightarrow> Dossier" where
  "example_dossier prime =
     \<lparr>ien = lit ''IEN1'', delegataire = lit ''HOMELIOR'', client_nom = lit ''Client'',
      dossier_fields = [lit ''Prime CEE'' \<mapsto> prime], pdf_files = []\<rparr>"

definition example_bundle :: "(ustr \<times> ustr) list" where
  "example_bundle =
     [(lit ''DEVIS_1.pdf'',
       lit ''DEVIS 2024-00012 Type d eclairage : Eclairage ambiance ou prive. Mise en place de luminaires neufs P.U TTC 42,32 Reste a payer 0,00''),
      (lit ''cadre.pdf'',
       lit ''Date de cette proposition : 15/01/2024 une prime d un montant de 2 538,90 euros''),
      (lit ''facture.pdf'',
       lit ''Date de facture : 12/03/2024 devis du 20/01/2024 reste a payer 0,00''),
      (lit ''bon_de_livraison.pdf'', lit ''livre le 12/03/2024''),
      (lit ''AH.pdf'', lit ''Attestation sur l'honneur''),
      (lit ''AFT.pdf'', lit ''Fait Le : 12/03/2024'')]"

text \<open>
  What the conversion of a captured amount needs from the character database: on
  ASCII, white space and decimal digits are the usual ones; a decimal digit has a value
  below ten; from code point 127 on, no white space is a decimal digit. The Unicode
  database has all three.
\<close>

definition ucd_wf :: "ucd \<Rightarrow> bool" where
  "ucd_wf U =
     ((\<forall>c<128. isspace U c = isspace ascii_ucd c \<and> todecimal U c = todecimal ascii_ucd c) \<and>
      (\<forall>c d. todecimal U c = Some d \<longrightarrow> d < 10) \<and>
      (\<forall>c. 127 \<le> c \<and> isspace U c \<longrightarrow> todecimal U c = None))"

text \<open>The ASCII digit that \<open>float\<close> reads for a decimal digit.\<close>

definition to_ascii_digit :: "ucd \<Rightarrow> nat \<Rightarrow> nat" where
  "to_ascii_digit U c = (if c < 127 then c else 48 + the (todecimal U c))"


section \<open>Properties of \<open>_normalize\<close>\<close>

lemma sub_ws_fix: "ws_ok U b s \<Longrightarrow> sub_ws U b s = s"
  by (induction s arbitrary: b) (auto split: if_splits)

lemma ws_ok_mono: "ws_ok U b s \<Longrightarrow> ws_ok U False s"
  by (cases s) (auto split: if_splits)

lemma ws_ok_sub_ws: "ws_ok U b (sub_ws U b s)"
  by (induction s arbitrary: b) (auto intro: ws_ok_mono)

lemma ws_ok_tail: "ws_ok U b (c # cs) \<Longrightarrow> ws_ok U False cs"
  by (auto split: if_splits intro: ws_ok_mono)

lemma ws_ok_dropWhile: "ws_ok U b s \<Longrightarrow> ws_ok U False (dropWhile p s)"
proof (induction s arbitrary: b)
  case Nil
  then show ?case by simp
next
  case (Cons c cs)
  show ?case
  proof (cases "p c")
    case True
    with Cons.IH [OF ws_ok_tail [OF Cons.prems]] show ?thesis by simp
  next
    case False
    with ws_ok_mono [OF Cons.prems] show ?thesis by simp
  qed
qed

lemma ws_ok_rstrip: "ws_ok U b s \<Longrightarrow> ws_ok U b (rstrip p s)"
  by (induction s arbitrary: b) (auto simp: Let_def split: if_splits)

lemma set_rstrip: "set (rstrip p s) \<subseteq> set s"
  by (induction s) (auto simp: Let_def)

lemma set_strip: "set (strip p s) \<subseteq> set s"
  unfolding strip_def using set_rstrip [of p s] set_dropWhileD [of _ p "rstrip p s"] by blast

lemma set_sub_ws: "set (sub_ws U b s) \<subseteq> insert 32 (set s)"
  by (induction s arbitrary: b) auto

lemma rstrip_last: "rstrip p s \<noteq> [] \<Longrightarrow> \<not> p (last (rstrip p s))"
  by (induction s) (auto simp: Let_def split: if_splits)

lemma rstrip_id: "s = [] \<or> \<not> p (last s) \<Longrightarrow> rstrip p s = s"
  by (induction s) (auto simp: Let_def split: if_splits)

lemma last_dropWhile: "dropWhile p s \<noteq> [] \<Longrightarrow> last (dropWhile p s) = last s"
  by (induction s) (auto split: if_splits)

lemma strip_idem: "strip p (strip p s) = strip p s"
proof -
  let ?r = "rstrip p s"
  have "dropWhile p ?r = [] \<or> \<not> p (last (dropWhile p ?r))"
  proof (cases "dropWhile p ?r = []")
    case True
    then show ?thesis by simp
  next
    case False
    then have "?r \<noteq> []" by auto
    with False show ?thesis using rstrip_last [of p s] last_dropWhile [of p ?r] by simp
  qed
  then have "rstrip p (dropWhile p ?r) = dropWhile p ?r" by (rule rstrip_id)
  then show ?thesis by (simp add: strip_def)
qed

lemma replace_char_absent: "old \<notin> set s \<Longrightarrow> replace_char old new s = s"
  by (induction s) (auto simp: replace_char_def)

lemma set_replace_char:
  "old \<noteq> new \<Longrightarrow> set (replace_char old new s) \<subseteq> insert new (set s) - {old}"
  by (auto simp: replace_char_def)

lemma ascii_stable: "stable_under ascii_ucd {c. \<not> (65 \<le> c \<and> c \<le> 90)}"
  unfolding stable_under_def
  by (auto simp: ascii_ucd_def ascii_lower_def intro!: map_idI)

text \<open>
  C8. Normalisation is idempotent: normalising a normalised text changes nothing. The
  proof needs of the character database what \<open>stable_under\<close> says: the decomposed,
  accent-free, lower-cased characters are not changed by a second pass. The remaining
  steps (no-break space, white space, trimming) are idempotent by themselves.
\<close>

theorem normalize_idempotent:
  assumes "stable_under U S"
  shows "u_normalize U (u_normalize U x) = u_normalize U x"
proof (cases "u_normalize U x = []")
  case True
  then show ?thesis by (simp add: u_normalize_def)
next
  case False
  define y where
    "y = replace_char 160 32 (str_lower U (filter (\<lambda>c. combining U c = 0) (normalize_NFKD U x)))"
  define t where "t = strip (isspace U) (sub_ws U False y)"
  from False have tx: "u_normalize U x = t"
    by (simp add: u_normalize_def t_def y_def Let_def split: if_splits)
  from assms have S32: "32 \<in> S"
    and Sout: "set (str_lower U (filter (\<lambda>c. combining U c = 0) (normalize_NFKD U x))) \<subseteq> S"
    and Sfix: "\<And>t. set t \<subseteq> S \<Longrightarrow>
          normalize_NFKD U t = t \<and> str_lower U t = t \<and> filter (\<lambda>c. combining U c = 0) t = t"
    by (auto simp: stable_under_def)
  have sy: "set y \<subseteq> S - {160}"
    using set_replace_char [of 160 32] Sout S32 unfolding y_def by fastforce
  have st: "set t \<subseteq> S - {160}"
    using set_strip [of "isspace U" "sub_ws U False y"] set_sub_ws [of U False y] sy S32
    unfolding t_def by fastforce
  then have "set t \<subseteq> S" by blast
  note fx = Sfix [OF this]
  have r: "replace_char 160 32 t = t"
    using st by (intro replace_char_absent) blast
  have "ws_ok U False t"
    unfolding t_def strip_def
    by (rule ws_ok_dropWhile [OF ws_ok_rstrip [OF ws_ok_sub_ws [of U False y]]])
  then have w: "sub_ws U False t = t" by (rule sub_ws_fix)
  have s: "strip (isspace U) t = t" unfolding t_def by (rule strip_idem)
  from False tx have "t \<noteq> []" by simp
  then have "u_normalize U t = t"
    by (simp add: u_normalize_def Let_def fx r w s)
  with tx show ?thesis by simp
qed

theorem normalize_idempotent_witness:
  "stable_under ascii_ucd {c. \<not> (65 \<le> c \<and> c \<le> 90)} \<and>
   u_normalize ascii_ucd (lit ''  Pri  ME '') = lit ''pri me'' \<and>
   u_normalize ascii_ucd (u_normalize ascii_ucd (lit ''  Pri  ME '')) =
     u_normalize ascii_ucd (lit ''  Pri  ME '')"
proof -
  have "u_normalize ascii_ucd (lit ''  Pri  ME '') = lit ''pri me''" by code_simp
  with ascii_stable normalize_idempotent [OF ascii_stable, of "lit ''  Pri  ME ''"]
  show ?thesis by simp
qed

section \<open>Classification\<close>

text \<open>
  C5, as the specification states it, fails: the name \<open>attest_aft.pdf\<close> contains
  "attest" and "aft", and it is bound to the completion certificate but not to the
  honour statement, whose keyword sets are "ah" and "attestation" with "honneur".
\<close>

theorem attest_aft_counterexample:
  "isin (lit ''attest'') (str_lower ascii_ucd (lit ''attest_aft.pdf'')) \<and>
   isin (lit ''aft'') (str_lower ascii_ucd (lit ''attest_aft.pdf'')) \<and>
   find_aft ascii_ucd [(lit ''attest_aft.pdf'', [])] = Some (lit ''attest_aft.pdf'', [], []) \<and>
   find_ah ascii_ucd [(lit ''attest_aft.pdf'', [])] = None"
  by code_simp

text \<open>
  C5, amended. A bundle of one file whose lower-cased name contains "aft" binds that
  file to both roles, honour statement and completion certificate, exactly when the
  name also contains "ah", or both "attestation" and "honneur".
\<close>

theorem single_file_ah_and_aft:
  assumes "isin (lit ''aft'') (str_lower U name)"
  shows "(find_ah U [(name, content)] = Some (name, content, u_normalize U content) \<and>
          find_aft U [(name, content)] = Some (name, content, u_normalize U content))
         \<longleftrightarrow>
         (isin (lit ''ah'') (str_lower U name) \<or>
          (isin (lit ''attestation'') (str_lower U name) \<and> isin (lit ''honneur'') (str_lower U name)))"
  using assms by (auto simp: find_ah_def find_aft_def or_else_def Let_def)

theorem single_file_ah_and_aft_witness:
  "isin (lit ''aft'') (str_lower ascii_ucd (lit ''Attestation_Honneur_AFT.pdf'')) \<and>
   find_ah ascii_ucd [(lit ''Attestation_Honneur_AFT.pdf'', lit ''x'')]
     = Some (lit ''Attestation_Honneur_AFT.pdf'', lit ''x'', u_normalize ascii_ucd (lit ''x'')) \<and>
   find_aft ascii_ucd [(lit ''Attestation_Honneur_AFT.pdf'', lit ''x'')]
     = Some (lit ''Attestation_Honneur_AFT.pdf'', lit ''x'', u_normalize ascii_ucd (lit ''x''))"
proof -
  have a: "isin (lit ''aft'') (str_lower ascii_ucd (lit ''Attestation_Honneur_AFT.pdf''))"
    by code_simp
  have b: "isin (lit ''attestation'') (str_lower ascii_ucd (lit ''Attestation_Honneur_AFT.pdf''))"
    by code_simp
  have c: "isin (lit ''honneur'') (str_lower ascii_ucd (lit ''Attestation_Honneur_AFT.pdf''))"
    by code_simp
  from single_file_ah_and_aft [OF a, of "lit ''x''"] a b c show ?thesis by blast
qed

section \<open>Totality\<close>








section \<open>The verdict and its problems\<close>

lemma conforme_neq: "lit ''conforme'' \<noteq> lit ''non_conforme''"
  by (simp add: lit_def)

lemma analyze_parts:
  assumes "analyze_homelior U dossier pdf_texts = Inr v"
  obtains p2 p3 where
    "rule_devis U (find_devis U pdf_texts) (find_facture U pdf_texts) (find_ah U pdf_texts)
       (resolve_date_devis U (find_cadre U pdf_texts) (find_facture U pdf_texts)) = Inr p2"
    "rule_cadre U dossier (find_cadre U pdf_texts)
       (resolve_date_devis U (find_cadre U pdf_texts) (find_facture U pdf_texts)) = Inr p3"
    "problems v = p2 @ p3 @ rule_facture U (find_facture U pdf_texts)
       @ rule_bl (find_bl U pdf_texts) (resolve_date_facture U (find_facture U pdf_texts))
           (resolve_date_bl U (find_bl U pdf_texts))
       @ rule_ah (find_ah U pdf_texts)
       @ rule_aft U (find_aft U pdf_texts) (resolve_date_facture U (find_facture U pdf_texts))
           (resolve_date_bl U (find_bl U pdf_texts))"
    "status v = (if problems v = [] then lit ''conforme'' else lit ''non_conforme'')"
  using assms
  by (auto simp: analyze_homelior_def Let_def bind_err_def split: sum.splits)

text \<open>
  C1. The status of the verdict is "conforme" if and only if the list of problems is
  empty, and "non_conforme" otherwise.
\<close>

theorem status_iff_no_problems:
  assumes "analyze_homelior U dossier pdf_texts = Inr v"
  shows "(status v = lit ''conforme'' \<longleftrightarrow> problems v = []) \<and>
         (status v = lit ''non_conforme'' \<longleftrightarrow> problems v \<noteq> [])"
proof -
  from assms have "status v = (if problems v = [] then lit ''conforme'' else lit ''non_conforme'')"
    by (rule analyze_parts)
  with conforme_neq show ?thesis by (cases "problems v = []") auto
qed

lemma check_rule_facture: "p \<in> set (rule_facture U f) \<Longrightarrow> check_of p \<in> {''4'', ''4.b''}"
  by (auto simp: rule_facture_def split: option.splits if_splits)

lemma check_rule_bl: "p \<in> set (rule_bl bl df db) \<Longrightarrow> check_of p = ''5''"
  by (auto simp: rule_bl_def split: option.splits if_splits)

lemma check_rule_ah: "p \<in> set (rule_ah ah) \<Longrightarrow> check_of p = ''6''"
  by (auto simp: rule_ah_def split: option.splits if_splits)

lemma check_rule_aft: "p \<in> set (rule_aft U aft df db) \<Longrightarrow> check_of p = ''7''"
  by (auto simp: rule_aft_def Let_def split: option.splits if_splits)

lemma try_float_cases:
  assumes "try_except_ValueError (bind_err (float_py U s) f) h = Inr ps"
  obtains "float_py U s = Inl ValueError" "ps = h"
    | v where "float_py U s = Inr v" "f v = Inr ps"
    | v where "float_py U s = Inr v" "f v = Inl ValueError" "ps = h"
  using assms
  by (auto simp: try_except_ValueError_def bind_err_def split: sum.splits pyerror.splits)

lemma check_rule_devis_price:
  assumes "rule_devis_price U dn = Inr ps" "p \<in> set ps"
  shows "check_of p = ''2.c''"
proof (cases "isin (lit ''mise en place de luminaires neufs'') dn")
  case False
  with assms show ?thesis by (simp add: rule_devis_price_def)
next
  case True
  show ?thesis
  proof (cases "search_price U dn")
    case None
    with True assms show ?thesis by (auto simp: rule_devis_price_def)
  next
    case (Some g)
    with True assms(1) have
      "try_except_ValueError
         (bind_err (float_py U (replace_char 44 46 (remove_char 32 g))) (\<lambda>price_val.
            Inr (if \<not> (fle (float_lit 42) price_val \<and> fle price_val (float_lit 43))
                 then [DevisPriceOutOfRange g] else [])))
         [DevisPriceUnparsable] = Inr ps"
      by (simp add: rule_devis_price_def Let_def)
    then show ?thesis using assms(2)
      by (cases rule: try_float_cases) (auto split: if_splits)
  qed
qed

lemma check_rule_devis_date: "p \<in> set (rule_devis_date dd) \<Longrightarrow> check_of p = ''2.d''"
  by (auto simp: rule_devis_date_def Let_def split: option.splits if_splits)

lemma rule_devis_parts:
  assumes "rule_devis U (Some (n, t, dn)) facture ah dd = Inr ps"
  obtains pp where "rule_devis_price U dn = Inr pp"
    "ps = (if re_search U False (rx_devis_header U) dn = None then [DevisHeaderMissing] else [])
          @ (if \<not> has_eclairage_ambiance_global dn facture ah then [DevisEclairageMissing] else [])
          @ pp @ rule_devis_date dd
          @ (if \<not> has_reste_a_payer U dn then [DevisResteMissing] else [])"
  using assms by (auto simp: rule_devis_def bind_err_def split: sum.splits)

lemma check_rule_devis:
  assumes "rule_devis U devis facture ah dd = Inr ps" "p \<in> set ps"
  shows "check_of p \<in> {''2'', ''2.a'', ''2.b'', ''2.c'', ''2.d'', ''2.e''}"
proof (cases devis)
  case None
  with assms show ?thesis by (auto simp: rule_devis_def)
next
  case (Some d)
  obtain n t dn where d: "d = (n, t, dn)" by (cases d)
  from assms(1) Some d obtain pp where pp: "rule_devis_price U dn = Inr pp"
    and ps: "ps = (if re_search U False (rx_devis_header U) dn = None then [DevisHeaderMissing] else [])
          @ (if \<not> has_eclairage_ambiance_global dn facture ah then [DevisEclairageMissing] else [])
          @ pp @ rule_devis_date dd
          @ (if \<not> has_reste_a_payer U dn then [DevisResteMissing] else [])"
    by (auto elim: rule_devis_parts)
  from assms(2) ps check_rule_devis_price [OF pp] check_rule_devis_date [of p dd]
  show ?thesis by (auto split: if_splits)
qed

lemma check_rule_cadre_prime:
  assumes "rule_cadre_prime U dossier cn = Inr ps" "p \<in> set ps"
  shows "check_of p = ''3.a''"
proof (cases "isin (lit ''une prime d un montant de'') cn")
  case False
  with assms show ?thesis by (auto simp: rule_cadre_prime_def)
next
  case True
  define prime_str where "prime_str = strip (isspace U)
       (case dossier_fields dossier (lit ''Prime CEE'') of None \<Rightarrow> [] | Some v \<Rightarrow> v)"
  show ?thesis
  proof (cases "prime_str = []")
    case e: True
    with True assms show ?thesis by (simp add: rule_cadre_prime_def prime_str_def)
  next
    case ne: False
    define inner where "inner = (\<lambda>prime_val.
        (case search_prime U cn of
           Some cadre_amount \<Rightarrow>
             (let cadre_amount_norm =
                    replace_char 44 46 (remove_char 160 (remove_char 32 cadre_amount))
              in try_except_ValueError
                   (bind_err (float_py U cadre_amount_norm) (\<lambda>cadre_val.
                      Inr (if fgt (fabs (fsub cadre_val prime_val)) (float_lit (1 / 100))
                           then [CadreAmountMismatch cadre_amount prime_str]
                           else [])))
                   [CadreAmountUnparsable])
         | None \<Rightarrow> Inr [CadreAmountNotFound]))"
    have inner_ok: "check_of p = ''3.a''" if "inner v = Inr ps" for v
    proof (cases "search_prime U cn")
      case None
      with that assms(2) show ?thesis by (auto simp: inner_def)
    next
      case (Some g)
      with that have
        "try_except_ValueError
           (bind_err (float_py U (replace_char 44 46 (remove_char 160 (remove_char 32 g))))
              (\<lambda>cadre_val. Inr (if fgt (fabs (fsub cadre_val v)) (float_lit (1 / 100))
                                 then [CadreAmountMismatch g prime_str] else [])))
           [CadreAmountUnparsable] = Inr ps"
        unfolding inner_def by (simp add: Let_def)
      then show ?thesis using assms(2)
        by (cases rule: try_float_cases) (auto split: if_splits)
    qed
    from True ne assms(1) have
      "try_except_ValueError
         (bind_err (float_py U (replace_char 44 46 (remove_char 160 (remove_char 32 prime_str))))
            inner)
         [CadrePrimeUnparsable prime_str] = Inr ps"
      unfolding inner_def prime_str_def by (simp add: rule_cadre_prime_def Let_def)
    then show ?thesis using assms(2) inner_ok
      by (cases rule: try_float_cases) auto
  qed
qed

lemma check_rule_cadre_date: "p \<in> set (rule_cadre_date U cn dd) \<Longrightarrow> check_of p = ''3.b''"
  by (auto simp: rule_cadre_date_def split: option.splits if_splits)

lemma rule_cadre_parts:
  assumes "rule_cadre U dossier (Some (n, t, cn)) dd = Inr ps"
  obtains pp where "rule_cadre_prime U dossier cn = Inr pp" "ps = pp @ rule_cadre_date U cn dd"
  using assms by (auto simp: rule_cadre_def bind_err_def split: sum.splits)

lemma check_rule_cadre:
  assumes "rule_cadre U dossier cadre dd = Inr ps" "p \<in> set ps"
  shows "check_of p \<in> {''3'', ''3.a'', ''3.b''}"
proof (cases cadre)
  case None
  with assms show ?thesis by (auto simp: rule_cadre_def)
next
  case (Some d)
  obtain n t cn where d: "d = (n, t, cn)" by (cases d)
  from assms(1) Some d obtain pp where pp: "rule_cadre_prime U dossier cn = Inr pp"
    and ps: "ps = pp @ rule_cadre_date U cn dd"
    by (auto elim: rule_cadre_parts)
  from assms(2) ps check_rule_cadre_prime [OF pp] check_rule_cadre_date [of p U cn dd]
  show ?thesis by auto
qed

text \<open>Where a problem of a given check can come from.\<close>

lemma problem_origin:
  assumes "analyze_homelior U dossier pdf_texts = Inr v" "p \<in> set (problems v)"
  obtains (devis) ps where
      "rule_devis U (find_devis U pdf_texts) (find_facture U pdf_texts) (find_ah U pdf_texts)
         (resolve_date_devis U (find_cadre U pdf_texts) (find_facture U pdf_texts)) = Inr ps"
      "p \<in> set ps"
    | (cadre) ps where
      "rule_cadre U dossier (find_cadre U pdf_texts)
         (resolve_date_devis U (find_cadre U pdf_texts) (find_facture U pdf_texts)) = Inr ps"
      "p \<in> set ps"
    | (other) "check_of p \<in> {''4'', ''4.b'', ''5'', ''6'', ''7''}"
proof -
  from assms(1) obtain p2 p3 where
    p2: "rule_devis U (find_devis U pdf_texts) (find_facture U pdf_texts) (find_ah U pdf_texts)
       (resolve_date_devis U (find_cadre U pdf_texts) (find_facture U pdf_texts)) = Inr p2" and
    p3: "rule_cadre U dossier (find_cadre U pdf_texts)
       (resolve_date_devis U (find_cadre U pdf_texts) (find_facture U pdf_texts)) = Inr p3" and
    ps: "problems v = p2 @ p3 @ rule_facture U (find_facture U pdf_texts)
       @ rule_bl (find_bl U pdf_texts) (resolve_date_facture U (find_facture U pdf_texts))
           (resolve_date_bl U (find_bl U pdf_texts))
       @ rule_ah (find_ah U pdf_texts)
       @ rule_aft U (find_aft U pdf_texts) (resolve_date_facture U (find_facture U pdf_texts))
           (resolve_date_bl U (find_bl U pdf_texts))"
    by (rule analyze_parts)
  from assms(2) ps consider "p \<in> set p2" | "p \<in> set p3"
    | "p \<in> set (rule_facture U (find_facture U pdf_texts))"
    | "p \<in> set (rule_bl (find_bl U pdf_texts) (resolve_date_facture U (find_facture U pdf_texts))
           (resolve_date_bl U (find_bl U pdf_texts)))"
    | "p \<in> set (rule_ah (find_ah U pdf_texts))"
    | "p \<in> set (rule_aft U (find_aft U pdf_texts) (resolve_date_facture U (find_facture U pdf_texts))
           (resolve_date_bl U (find_bl U pdf_texts)))"
    by auto
  then show thesis
  proof cases
    case 1 with p2 show ?thesis by (rule devis)
  next
    case 2 with p3 show ?thesis by (rule cadre)
  next
    case 3 then show ?thesis using check_rule_facture other by blast
  next
    case 4 then show ?thesis using check_rule_bl other by blast
  next
    case 5 then show ?thesis using check_rule_ah other by blast
  next
    case 6 then show ?thesis using check_rule_aft other by blast
  qed
qed

lemma resolve_keeps_1a:
  "date_devis_1a U cadre = Some d \<Longrightarrow> resolve_date_devis U cadre facture = Some d"
  by (auto simp: resolve_date_devis_def date_devis_1b_def date_devis_1c_def split: option.splits)

lemma no_mismatch_in_cadre_date:
  "CadreDateMismatch \<notin> set (rule_cadre_date U cn (resolve_date_devis U (Some (n, t, cn)) facture))"
proof (cases "search_date_proposition U cn")
  case None
  then show ?thesis by (simp add: rule_cadre_date_def)
next
  case (Some g)
  show ?thesis
  proof (cases "u_parse_date U g")
    case None
    with Some show ?thesis by (simp add: rule_cadre_date_def split: option.splits)
  next
    case (Some d)
    with \<open>search_date_proposition U cn = Some g\<close>
    have "date_devis_1a U (Some (n, t, cn)) = Some d" by (simp add: date_devis_1a_def)
    then have "resolve_date_devis U (Some (n, t, cn)) facture = Some d" by (rule resolve_keeps_1a)
    with Some \<open>search_date_proposition U cn = Some g\<close> show ?thesis
      by (simp add: rule_cadre_date_def)
  qed
qed

text \<open>
  C6. The problem "CADRE : la Date de cette proposition ne correspond pas a la date de
  devis" is never emitted: when the labelled date of the frame is found and parses, step
  1.a has made it the date of the quote, and 1.b and 1.c keep a date already found.
\<close>

theorem cadre_date_mismatch_never_emitted:
  assumes "analyze_homelior U dossier pdf_texts = Inr v"
  shows "CadreDateMismatch \<notin> set (problems v)"
proof
  assume m: "CadreDateMismatch \<in> set (problems v)"
  from assms m show False
  proof (cases rule: problem_origin)
    case (devis ps)
    from check_rule_devis [OF this] show False by simp
  next
    case (cadre ps)
    show False
    proof (cases "find_cadre U pdf_texts")
      case None
      with cadre show False by (auto simp: rule_cadre_def)
    next
      case (Some d)
      obtain n t cn where d: "d = (n, t, cn)" by (cases d)
      from cadre(1) Some d obtain pp where pp: "rule_cadre_prime U dossier cn = Inr pp"
        and ps: "ps = pp @ rule_cadre_date U cn
                   (resolve_date_devis U (Some (n, t, cn)) (find_facture U pdf_texts))"
        by (auto elim: rule_cadre_parts)
      from cadre(2) ps no_mismatch_in_cadre_date have "CadreDateMismatch \<in> set pp" by auto
      from check_rule_cadre_prime [OF pp this] show False by simp
    qed
  next
    case other
    then show False by simp
  qed
qed

text \<open>
  C10. When a quote is classified and its normalised text does not contain "mise en
  place de luminaires neufs", the result holds no problem of the unit price: neither
  "not found", nor "unparsable", nor "out of range".
\<close>

theorem unit_price_check_skipped:
  assumes "find_devis U pdf_texts = Some (devis_name, devis_txt, devis_norm)"
    and "\<not> isin (lit ''mise en place de luminaires neufs'') devis_norm"
    and "analyze_homelior U dossier pdf_texts = Inr v"
  shows "DevisPriceMissing \<notin> set (problems v) \<and> DevisPriceUnparsable \<notin> set (problems v) \<and>
         (\<forall>price_str. DevisPriceOutOfRange price_str \<notin> set (problems v))"
proof -
  have "check_of p \<noteq> ''2.c''" if "p \<in> set (problems v)" for p
    using assms(3) that
  proof (cases rule: problem_origin)
    case (devis ps)
    from devis(1) assms(1) obtain pp where pp: "rule_devis_price U devis_norm = Inr pp"
      and ps: "ps = (if re_search U False (rx_devis_header U) devis_norm = None
                     then [DevisHeaderMissing] else [])
          @ (if \<not> has_eclairage_ambiance_global devis_norm (find_facture U pdf_texts) (find_ah U pdf_texts)
             then [DevisEclairageMissing] else [])
          @ pp @ rule_devis_date (resolve_date_devis U (find_cadre U pdf_texts) (find_facture U pdf_texts))
          @ (if \<not> has_reste_a_payer U devis_norm then [DevisResteMissing] else [])"
      by (auto elim: rule_devis_parts)
    from pp assms(2) have "pp = []" by (simp add: rule_devis_price_def)
    with ps devis(2) check_rule_devis_date [of p] show ?thesis by (auto split: if_splits)
  next
    case (cadre ps)
    from check_rule_cadre [OF this] show ?thesis by auto
  next
    case other
    then show ?thesis by auto
  qed
  then show ?thesis by force
qed

lemma first_date_of_Cons:
  "first_date_of U (txt # rest) =
     (case date_any U txt of Some d \<Rightarrow> Some d | None \<Rightarrow> first_date_of U rest)"
  by (simp add: date_any_def split: option.splits)

lemma first_date_of_candidats:
  "first_date_of U (candidats_devis_dates cadre facture) =
     (case (case cadre of None \<Rightarrow> None | Some (n, t, cn) \<Rightarrow> date_any U cn) of
        Some d \<Rightarrow> Some d
      | None \<Rightarrow> (case facture of None \<Rightarrow> None | Some (n, t, fn) \<Rightarrow> date_any U fn))"
  by (cases cadre; cases facture)
     (auto simp: candidats_devis_dates_def first_date_of_Cons simp del: first_date_of.simps(2)
           split: option.splits)

text \<open>
  C4. The date of the quote that steps 1.a to 1.c compute is the result of the chain of
  four steps of the specification, the first successful step winning. In particular,
  when the frame carries a labelled date of proposal that parses to \<open>D1\<close>, the date of
  the quote is \<open>D1\<close>, whatever the invoice says.
\<close>

theorem quote_date_fallback_chain:
  "resolve_date_devis U cadre facture = spec_quote_date_chain U cadre facture \<and>
   (\<forall>n t cn g D1. cadre = Some (n, t, cn) \<and> search_date_proposition U cn = Some g \<and>
        u_parse_date U g = Some D1 \<longrightarrow> resolve_date_devis U cadre facture = Some D1)"
proof
  show "resolve_date_devis U cadre facture = spec_quote_date_chain U cadre facture"
    unfolding resolve_date_devis_def spec_quote_date_chain_def date_devis_1a_def date_devis_1b_def
      date_devis_1c_def first_date_of_candidats Let_def
    by (cases cadre; cases facture) (auto split: option.splits)
  show "\<forall>n t cn g D1. cadre = Some (n, t, cn) \<and> search_date_proposition U cn = Some g \<and>
        u_parse_date U g = Some D1 \<longrightarrow> resolve_date_devis U cadre facture = Some D1"
    by (auto intro!: resolve_keeps_1a simp: date_devis_1a_def)
qed

section \<open>The amounts\<close>

subsection \<open>What the amount pattern captures\<close>

lemma first_some_map: "first_some (map f ks) = Some g \<Longrightarrow> \<exists>k\<in>set ks. f k = Some g"
proof (induction ks)
  case Nil
  then show ?case by simp
next
  case (Cons a ks)
  then show ?case by (cases "f a") auto
qed

lemma rep_counts_bound:
  assumes "k \<in> set (rep_counts cls lo hi greedy s)"
  shows "lo \<le> k \<and> k \<le> length (takeWhile cls s) \<and> (\<forall>h. hi = Some h \<longrightarrow> k \<le> h)"
  using assms by (auto simp: rep_counts_def Let_def split: option.splits if_splits)

lemma take_run:
  assumes "k \<le> length (takeWhile cls s)"
  shows "s = take k s @ drop k s \<and> length (take k s) = k \<and> (\<forall>c\<in>set (take k s). cls c)"
proof -
  have "length (takeWhile cls s) \<le> length s" by (rule length_takeWhile_le)
  with assms have k: "k \<le> length s" by simp
  have "take k s = take k (takeWhile cls s)"
    using assms by (metis append_eq_conv_conj takeWhile_dropWhile_id take_append diff_is_0_eq' take_0 append_Nil2 take_all_iff order_refl)
  then have "set (take k s) \<subseteq> set (takeWhile cls s)" by (metis set_take_subset)
  then have "\<forall>c\<in>set (take k s). cls c" using set_takeWhileD by fastforce
  with k show ?thesis by simp
qed

lemma rep_step:
  assumes "rx_match U ic (Rep cls lo hi greedy # r) prev s gs cap = Some g"
  obtains t s' prev' where "s = t @ s'" "lo \<le> length t" "\<forall>h. hi = Some h \<longrightarrow> length t \<le> h"
    "\<forall>c\<in>set t. cls c" "rx_match U ic r prev' s' gs cap = Some g"
proof -
  from assms obtain k where k: "k \<in> set (rep_counts cls lo hi greedy s)"
    and m: "rx_match U ic r (advance k prev s) (drop k s) gs cap = Some g"
    by (auto dest!: first_some_map)
  from rep_counts_bound [OF k] have b: "lo \<le> k" "k \<le> length (takeWhile cls s)"
    "\<forall>h. hi = Some h \<longrightarrow> k \<le> h" by auto
  from take_run [OF b(2)] have t: "s = take k s @ drop k s" "length (take k s) = k"
    "\<forall>c\<in>set (take k s). cls c" by auto
  show thesis
    by (rule that [of "take k s" "drop k s" "advance k prev s"]) (use t b m in auto)
qed

lemma lit_step:
  assumes "rx_match U ic (Lit p # r) prev s gs cap = Some g"
  obtains t s' prev' where "s = t @ s'" "rx_match U ic r prev' s' gs cap = Some g"
proof -
  from assms have m: "rx_match U ic r (advance (length p) prev s) (drop (length p) s) gs cap = Some g"
    by (auto split: if_splits)
  show thesis
    by (rule that [of "take (length p) s" "drop (length p) s" "advance (length p) prev s"]) (use m in auto)
qed

text \<open>The group of the amount pattern.\<close>

lemma rx_amount_match:
  assumes "rx_match U ic (rx_amount U) prev s gs cap = Some g"
  obtains d ws sep d1 d2 rest where "s = g @ rest" "g = d # ws @ [sep, d1, d2]"
    "cls_d U d" "\<forall>c\<in>set ws. cls_d U c \<or> isspace U c" "sep = 46 \<or> sep = 44"
    "cls_d U d1" "cls_d U d2"
proof -
  from assms have m0: "rx_match U ic
      [Rep (cls_d U) 1 (Some 1) True, Rep (\<lambda>c. cls_d U c \<or> isspace U c) 0 None True,
       Rep (\<lambda>c. c = 46 \<or> c = 44) 1 (Some 1) True, Rep (cls_d U) 2 (Some 2) True, GClose]
      prev s s cap = Some g"
    by (simp add: rx_amount_def one_def star_def times_def)
  from m0 obtain t1 s1 p1 where 1: "s = t1 @ s1" "1 \<le> length t1"
      "\<forall>h. Some 1 = Some h \<longrightarrow> length t1 \<le> h" "\<forall>c\<in>set t1. cls_d U c"
    and m1: "rx_match U ic
      [Rep (\<lambda>c. cls_d U c \<or> isspace U c) 0 None True,
       Rep (\<lambda>c. c = 46 \<or> c = 44) 1 (Some 1) True, Rep (cls_d U) 2 (Some 2) True, GClose]
      p1 s1 s cap = Some g"
    by (rule rep_step)
  from m1 obtain t2 s2 p2 where 2: "s1 = t2 @ s2" "0 \<le> length t2"
      "\<forall>h. None = Some h \<longrightarrow> length t2 \<le> h" "\<forall>c\<in>set t2. cls_d U c \<or> isspace U c"
    and m2: "rx_match U ic
      [Rep (\<lambda>c. c = 46 \<or> c = 44) 1 (Some 1) True, Rep (cls_d U) 2 (Some 2) True, GClose]
      p2 s2 s cap = Some g"
    by (rule rep_step)
  from m2 obtain t3 s3 p3 where 3: "s2 = t3 @ s3" "1 \<le> length t3"
      "\<forall>h. Some 1 = Some h \<longrightarrow> length t3 \<le> h" "\<forall>c\<in>set t3. c = 46 \<or> c = 44"
    and m3: "rx_match U ic [Rep (cls_d U) 2 (Some 2) True, GClose] p3 s3 s cap = Some g"
    by (rule rep_step)
  from m3 obtain t4 s4 p4 where 4: "s3 = t4 @ s4" "2 \<le> length t4"
      "\<forall>h. Some 2 = Some h \<longrightarrow> length t4 \<le> h" "\<forall>c\<in>set t4. cls_d U c"
    and m4: "rx_match U ic [GClose] p4 s4 s cap = Some g"
    by (rule rep_step)
  from m4 have g: "g = take (length s - length s4) s" by simp
  from 1 2 3 4 have s: "s = (t1 @ t2 @ t3 @ t4) @ s4" by simp
  with g have g': "g = t1 @ t2 @ t3 @ t4" by simp
  from 1 have "length t1 = 1" by simp
  then obtain d where t1: "t1 = [d]" by (cases t1) auto
  from 3 have "length t3 = 1" by simp
  then obtain sep where t3: "t3 = [sep]" by (cases t3) auto
  from 4 have "length t4 = 2" by simp
  then obtain d1 d2 where t4: "t4 = [d1, d2]"
    by (cases t4; cases "tl t4") auto
  show thesis
    by (rule that [of s4 d t2 sep d1 d2]) (use s g' t1 t3 t4 1 2 3 4 in auto)
qed

text \<open>A match found by \<open>re.search\<close> starts somewhere in the text.\<close>

lemma re_search_from_Some:
  assumes "re_search_from U ic pat prev s = Some g"
  obtains pre s' prev' where "s = pre @ s'" "rx_match U ic pat prev' s' [] [] = Some g"
  using assms
proof (induction s arbitrary: prev thesis)
  case Nil
  then show ?case by (auto intro: Nil(1) [of "[]" "[]"])
next
  case (Cons c cs)
  show ?case
  proof (cases "rx_match U ic pat prev (c # cs) [] []")
    case (Some g')
    with Cons.prems(2) have "g' = g" by simp
    with Some show ?thesis by (auto intro: Cons.prems(1) [of "[]" "c # cs" prev])
  next
    case None
    with Cons.prems(2) have r: "re_search_from U ic pat (Some c) cs = Some g" by simp
    obtain pre s' prev' where "cs = pre @ s'" "rx_match U ic pat prev' s' [] [] = Some g"
      using Cons.IH [OF _ r] by blast
    then show ?thesis by (auto intro: Cons.prems(1) [of "c # pre" s' prev'])
  qed
qed

lemma search_amount_shape:
  assumes "re_search U ic (Lit p # Rep cls lo hi gr # rx_amount U) zone = Some g"
  obtains d ws sep d1 d2 where "set g \<subseteq> set zone" "g = d # ws @ [sep, d1, d2]"
    "cls_d U d" "\<forall>c\<in>set ws. cls_d U c \<or> isspace U c" "sep = 46 \<or> sep = 44"
    "cls_d U d1" "cls_d U d2"
proof -
  from assms obtain pre s' prev' where z: "zone = pre @ s'"
    and m: "rx_match U ic (Lit p # Rep cls lo hi gr # rx_amount U) prev' s' [] [] = Some g"
    unfolding re_search_def by (rule re_search_from_Some)
  from m obtain t1 s1 p1 where s1: "s' = t1 @ s1"
    and m1: "rx_match U ic (Rep cls lo hi gr # rx_amount U) p1 s1 [] [] = Some g"
    by (rule lit_step)
  from m1 obtain t2 s2 p2 where s2: "s1 = t2 @ s2"
    and m2: "rx_match U ic (rx_amount U) p2 s2 [] [] = Some g"
    by (rule rep_step)
  from m2 obtain d ws sep d1 d2 rest where a: "s2 = g @ rest" "g = d # ws @ [sep, d1, d2]"
    "cls_d U d" "\<forall>c\<in>set ws. cls_d U c \<or> isspace U c" "sep = 46 \<or> sep = 44"
    "cls_d U d1" "cls_d U d2"
    by (rule rx_amount_match)
  from z s1 s2 a(1) have "set g \<subseteq> set zone" by auto
  with a show thesis by (intro that [of d ws sep d1 d2]) auto
qed

subsection \<open>The captured amount as a float\<close>

lemma ascii_wf: "ucd_wf ascii_ucd"
  by (auto simp: ucd_wf_def ascii_ucd_def split: if_splits)

lemma ws_ok_normalize: "ws_ok U False (u_normalize U x)"
  unfolding u_normalize_def Let_def strip_def
  by (auto intro!: ws_ok_dropWhile [OF ws_ok_rstrip [OF ws_ok_sub_ws]])

lemma ws_ok_set: "ws_ok U b s \<Longrightarrow> c \<in> set s \<Longrightarrow> isspace U c \<Longrightarrow> c = 32"
  by (induction s arbitrary: b) (auto split: if_splits)

lemma nbsp_normalize: "160 \<notin> set (u_normalize U x)"
proof (cases "x = []")
  case True
  then show ?thesis by (simp add: u_normalize_def)
next
  case False
  let ?y = "replace_char 160 32 (str_lower U (filter (\<lambda>c. combining U c = 0) (normalize_NFKD U x)))"
  have "160 \<notin> set ?y" using set_replace_char [of 160 32] by fastforce
  then have "160 \<notin> set (sub_ws U False ?y)" using set_sub_ws [of U False ?y] by auto
  then have "160 \<notin> set (strip (isspace U) (sub_ws U False ?y))"
    using set_strip [of "isspace U" "sub_ws U False ?y"] by auto
  with False show ?thesis by (simp add: u_normalize_def Let_def)
qed

lemma find_doc_normalized:
  "u_find_doc_by_name U b kws = Some (n, t, dn) \<Longrightarrow> dn = u_normalize U t"
  by (induction b) (auto simp: Let_def split: if_splits)

text \<open>Decimal digits and the conversion to a float.\<close>

lemma digit_cases:
  assumes "ucd_wf U" "cls_d U c"
  shows "c \<noteq> 32 \<and> c \<noteq> 44 \<and> c \<noteq> 46 \<and> c \<noteq> 95 \<and> (c < 127 \<longrightarrow> ascii_digit c) \<and>
         (127 \<le> c \<longrightarrow> \<not> isspace U c)"
proof -
  from assms(2) obtain d where d: "todecimal U c = Some d" by (auto simp: cls_d_def)
  have a: "c < 128 \<Longrightarrow> todecimal ascii_ucd c = Some d"
    using assms(1) d by (auto simp: ucd_wf_def)
  have "c < 128 \<Longrightarrow> 48 \<le> c \<and> c \<le> 57"
    using a by (auto simp: ascii_ucd_def split: if_splits)
  moreover have "127 \<le> c \<Longrightarrow> \<not> isspace U c"
    using assms(1) d by (auto simp: ucd_wf_def)
  ultimately show ?thesis by (auto simp: ascii_digit_def)
qed

lemma to_ascii_digit_ok:
  assumes "ucd_wf U" "cls_d U c"
  shows "ascii_digit (to_ascii_digit U c)"
proof (cases "c < 127")
  case True
  with digit_cases [OF assms] show ?thesis by (simp add: to_ascii_digit_def)
next
  case False
  from assms(2) obtain d where d: "todecimal U c = Some d" by (auto simp: cls_d_def)
  with assms(1) have "d < 10" by (auto simp: ucd_wf_def)
  with False d show ?thesis by (simp add: to_ascii_digit_def ascii_digit_def)
qed

lemma transform_digits:
  assumes "ucd_wf U" "\<forall>c\<in>set ds. cls_d U c"
  shows "transform_decimal_and_space U (ds @ r) =
         map (to_ascii_digit U) ds @ transform_decimal_and_space U r"
  using assms(2)
proof (induction ds)
  case Nil
  then show ?case by simp
next
  case (Cons c ds)
  then have c: "cls_d U c" by simp
  then obtain d where d: "todecimal U c = Some d" by (auto simp: cls_d_def)
  from digit_cases [OF assms(1) c] have "127 \<le> c \<Longrightarrow> \<not> isspace U c" by simp
  with Cons d show ?case by (auto simp: to_ascii_digit_def)
qed

lemma strip_id:
  assumes "s \<noteq> []" "\<not> ws (hd s)" "\<not> ws (last s)"
  shows "strip ws s = s"
proof -
  from assms(3) have "rstrip ws s = s" by (intro rstrip_id) simp
  moreover from assms(1,2) have "dropWhile ws s = s" by (cases s) auto
  ultimately show ?thesis by (simp add: strip_def)
qed

lemma remove_underscores_none: "prev \<noteq> 95 \<Longrightarrow> 95 \<notin> set s \<Longrightarrow> remove_underscores prev s = Some s"
  by (induction s arbitrary: prev) auto

lemma ascii_digit_facts:
  "ascii_digit c \<Longrightarrow> c \<noteq> 95 \<and> c \<noteq> 45 \<and> c \<noteq> 43 \<and> c \<noteq> 46 \<and> \<not> ascii_isspace c \<and> ascii_lower c = c"
  by (auto simp: ascii_digit_def ascii_isspace_def ascii_lower_def)

lemma parse_float_digits:
  assumes "a \<noteq> []" "\<forall>c\<in>set a. ascii_digit c" "\<forall>c\<in>set b. ascii_digit c"
  shows "\<exists>v. parse_float_ascii (a @ 46 # b) = Some v"
proof -
  from assms(1) obtain x xs where a: "a = x # xs" by (cases a) auto
  with assms(2) have x: "ascii_digit x" by simp
  have sg: "split_sign (a @ 46 # b) = (False, a @ 46 # b)"
    using a ascii_digit_facts [OF x] by (simp add: split_sign_def)
  have w: "hd (map ascii_lower (a @ 46 # b)) = x"
    using a ascii_digit_facts [OF x] by simp
  have ninf: "map ascii_lower (a @ 46 # b) \<noteq> lit ''inf''"
    "map ascii_lower (a @ 46 # b) \<noteq> lit ''infinity''"
    "map ascii_lower (a @ 46 # b) \<noteq> lit ''nan''"
    using w x by (auto simp: lit_def ascii_digit_def)
  have tw: "takeWhile ascii_digit (a @ 46 # b) = a" "dropWhile ascii_digit (a @ 46 # b) = 46 # b"
    using assms(2) by (auto simp: takeWhile_append2 dropWhile_append2 ascii_digit_def)
  have tb: "takeWhile ascii_digit b = b" "dropWhile ascii_digit b = []"
    using assms(3) by (auto simp: takeWhile_eq_all_conv)
  show ?thesis
    by (simp add: parse_float_ascii_def sg ninf tw tb Let_def parse_exponent_def assms(1))
qed

lemma float_py_digits:
  assumes "ucd_wf U" "ds \<noteq> []" "\<forall>c\<in>set ds. cls_d U c" "cls_d U d1" "cls_d U d2"
  shows "\<exists>v. float_py U (ds @ [46, d1, d2]) = Inr v"
proof -
  let ?a = "map (to_ascii_digit U) ds"
  let ?b = "[to_ascii_digit U d1, to_ascii_digit U d2]"
  have t2: "transform_decimal_and_space U ([d1, d2] @ []) = map (to_ascii_digit U) [d1, d2] @ transform_decimal_and_space U []"
    by (rule transform_digits [OF assms(1)]) (simp add: assms(4,5))
  have t1: "transform_decimal_and_space U (46 # [d1, d2]) = 46 # transform_decimal_and_space U [d1, d2]"
    by simp
  have t0: "transform_decimal_and_space U (ds @ [46, d1, d2]) = ?a @ transform_decimal_and_space U [46, d1, d2]"
    by (rule transform_digits [OF assms(1,3)])
  from t2 have t2': "transform_decimal_and_space U [d1, d2] = ?b" by simp
  have tr: "transform_decimal_and_space U (ds @ [46, d1, d2]) = ?a @ 46 # ?b"
    unfolding t0 t1 t2' ..
  have da: "\<forall>c\<in>set ?a. ascii_digit c" using to_ascii_digit_ok [OF assms(1)] assms(3) by simp
  have db: "\<forall>c\<in>set ?b. ascii_digit c" using to_ascii_digit_ok [OF assms(1)] assms(4,5) by simp
  have ne: "?a \<noteq> []" using assms(2) by simp
  then obtain x xs where a: "?a = x # xs" by (cases ?a) auto
  with da have "ascii_digit x" by simp
  then have "\<not> ascii_isspace x" using ascii_digit_facts by blast
  with a have hd: "\<not> ascii_isspace (hd (?a @ 46 # ?b))" by simp
  have "ascii_digit (to_ascii_digit U d2)" using db by simp
  then have "\<not> ascii_isspace (to_ascii_digit U d2)" using ascii_digit_facts by blast
  then have last: "\<not> ascii_isspace (last (?a @ 46 # ?b))" by simp
  have st: "strip ascii_isspace (?a @ 46 # ?b) = ?a @ 46 # ?b"
    by (rule strip_id [OF _ hd last]) simp
  have "\<forall>c\<in>set ?a \<union> set ?b. c \<noteq> 95" using da db ascii_digit_facts by blast
  then have "95 \<notin> set (?a @ 46 # ?b)" by auto
  then have ru: "remove_underscores 0 (?a @ 46 # ?b) = Some (?a @ 46 # ?b)"
    by (intro remove_underscores_none) simp_all
  from parse_float_digits [OF ne da db] obtain v where pf: "parse_float_ascii (?a @ 46 # ?b) = Some v"
    by blast
  have "float_py U (ds @ [46, d1, d2]) = Inr v"
    unfolding float_py_def tr st ru by (simp add: pf)
  then show ?thesis ..
qed

text \<open>The amount captured in a normalised text, once cleaned, is such a numeral.\<close>

lemma cleaned_amount_parses:
  assumes wf: "ucd_wf U"
    and g: "g = d # ws @ [sep, d1, d2]" "cls_d U d" "\<forall>c\<in>set ws. cls_d U c \<or> isspace U c"
      "sep = 46 \<or> sep = 44" "cls_d U d1" "cls_d U d2"
    and sub: "set g \<subseteq> set (u_normalize U x)"
  shows "\<exists>v. float_py U (replace_char 44 46 (remove_char 32 g)) = Inr v"
    and "remove_char 160 (remove_char 32 g) = remove_char 32 g"
proof -
  have sp: "c = 32" if "c \<in> set g" "isspace U c" for c
    using ws_ok_set [OF ws_ok_normalize] sub that by blast
  let ?ws = "filter (\<lambda>c. c \<noteq> 32) ws"
  have wsd: "\<forall>c\<in>set ?ws. cls_d U c"
  proof
    fix c assume c: "c \<in> set ?ws"
    then have "c \<in> set g" "c \<noteq> 32" by (auto simp: g(1))
    with sp have "\<not> isspace U c" by blast
    with c g(3) show "cls_d U c" by auto
  qed
  note dc = digit_cases [OF wf]
  have n32: "d \<noteq> 32" "d1 \<noteq> 32" "d2 \<noteq> 32" "sep \<noteq> 32"
    using dc [OF g(2)] dc [OF g(5)] dc [OF g(6)] g(4) by auto
  have n44: "d \<noteq> 44" "d1 \<noteq> 44" "d2 \<noteq> 44"
    using dc [OF g(2)] dc [OF g(5)] dc [OF g(6)] by auto
  have w44: "\<forall>c\<in>set ?ws. c \<noteq> 44"
  proof
    fix c assume "c \<in> set ?ws"
    with wsd have "cls_d U c" by blast
    from dc [OF this] show "c \<noteq> 44" by simp
  qed
  have r32: "remove_char 32 g = (d # ?ws) @ [sep, d1, d2]"
    unfolding g(1) remove_char_def using n32 by simp
  have m: "map (\<lambda>c. if c = 44 then 46 else c) ?ws = ?ws"
    using w44 by (intro map_idI) simp
  have r44: "replace_char 44 46 (remove_char 32 g) = (d # ?ws) @ [46, d1, d2]"
    unfolding r32 replace_char_def using n44 g(4) m by auto
  have dd: "\<forall>c\<in>set (d # ?ws). cls_d U c" using g(2) wsd by simp
  show "\<exists>v. float_py U (replace_char 44 46 (remove_char 32 g)) = Inr v"
    unfolding r44 by (rule float_py_digits [OF wf _ dd g(5,6)]) simp
  have "160 \<notin> set g" using sub nbsp_normalize by blast
  then have "\<forall>c\<in>set (remove_char 32 g). c \<noteq> 160" by (auto simp: remove_char_def)
  then show "remove_char 160 (remove_char 32 g) = remove_char 32 g"
    unfolding remove_char_def [of 160] by (simp add: filter_id_conv)
qed

subsection \<open>The conversions of the captured amounts never fail\<close>

lemma find_devis_normalized: "find_devis U b = Some (n, t, dn) \<Longrightarrow> dn = u_normalize U t"
  unfolding find_devis_def by (rule find_doc_normalized)

lemma find_cadre_normalized: "find_cadre U b = Some (n, t, cn) \<Longrightarrow> cn = u_normalize U t"
  unfolding find_cadre_def by (rule find_doc_normalized)

lemma try_float_ok:
  "float_py U s = Inr v \<Longrightarrow> try_except_ValueError (bind_err (float_py U s) (\<lambda>x. Inr (f x))) h = Inr (f v)"
  by (simp add: try_except_ValueError_def bind_err_def)

lemma price_parses:
  assumes wf: "ucd_wf U" and m: "search_price U (u_normalize U t) = Some g"
  shows "\<exists>v. float_py U (replace_char 44 46 (remove_char 32 g)) = Inr v"
proof -
  from m have "re_search U False
      (Lit (lit ''mise en place de luminaires neufs'') # Rep (\<lambda>c. c \<noteq> 10) 0 None False # rx_amount U)
      (u_normalize U t) = Some g"
    by (simp add: search_price_def)
  then obtain d ws sep d1 d2 where g: "set g \<subseteq> set (u_normalize U t)" "g = d # ws @ [sep, d1, d2]"
    "cls_d U d" "\<forall>c\<in>set ws. cls_d U c \<or> isspace U c" "sep = 46 \<or> sep = 44"
    "cls_d U d1" "cls_d U d2"
    by (rule search_amount_shape)
  from cleaned_amount_parses(1) [OF wf g(2-7) g(1)] show ?thesis .
qed

lemma prime_parses:
  assumes wf: "ucd_wf U" and m: "search_prime U (u_normalize U t) = Some g"
  shows "\<exists>v. float_py U (replace_char 44 46 (remove_char 160 (remove_char 32 g))) = Inr v"
proof -
  from m have "re_search U False
      (Lit (lit ''une prime d un montant de'') # Rep (isspace U) 1 None True # rx_amount U)
      (u_normalize U t) = Some g"
    by (simp add: search_prime_def)
  then obtain d ws sep d1 d2 where g: "set g \<subseteq> set (u_normalize U t)" "g = d # ws @ [sep, d1, d2]"
    "cls_d U d" "\<forall>c\<in>set ws. cls_d U c \<or> isspace U c" "sep = 46 \<or> sep = 44"
    "cls_d U d1" "cls_d U d2"
    by (rule search_amount_shape)
  from cleaned_amount_parses [OF wf g(2-7) g(1)] show ?thesis by simp
qed

lemma devis_price_never_unparsable:
  assumes wf: "ucd_wf U" and r: "rule_devis_price U (u_normalize U t) = Inr pp"
  shows "DevisPriceUnparsable \<notin> set pp"
proof (cases "isin (lit ''mise en place de luminaires neufs'') (u_normalize U t)")
  case False
  with r show ?thesis by (auto simp: rule_devis_price_def)
next
  case True
  show ?thesis
  proof (cases "search_price U (u_normalize U t)")
    case None
    with True r show ?thesis by (auto simp: rule_devis_price_def)
  next
    case (Some g)
    from price_parses [OF wf Some] obtain v
      where v: "float_py U (replace_char 44 46 (remove_char 32 g)) = Inr v" by blast
    from True Some r show ?thesis
      by (auto simp: rule_devis_price_def Let_def try_float_ok [OF v] split: if_splits)
  qed
qed

lemma cadre_amount_never_unparsable:
  assumes wf: "ucd_wf U" and r: "rule_cadre_prime U dossier (u_normalize U t) = Inr pp"
  shows "CadreAmountUnparsable \<notin> set pp"
proof (cases "isin (lit ''une prime d un montant de'') (u_normalize U t)")
  case False
  with r show ?thesis by (auto simp: rule_cadre_prime_def)
next
  case True
  define prime_str where "prime_str = strip (isspace U)
       (case dossier_fields dossier (lit ''Prime CEE'') of None \<Rightarrow> [] | Some v \<Rightarrow> v)"
  show ?thesis
  proof (cases "prime_str = []")
    case e: True
    with True r show ?thesis by (auto simp: rule_cadre_prime_def prime_str_def)
  next
    case ne: False
    define inner where "inner = (\<lambda>prime_val.
        (case search_prime U (u_normalize U t) of
           Some cadre_amount \<Rightarrow>
             (let cadre_amount_norm =
                    replace_char 44 46 (remove_char 160 (remove_char 32 cadre_amount))
              in try_except_ValueError
                   (bind_err (float_py U cadre_amount_norm) (\<lambda>cadre_val.
                      Inr (if fgt (fabs (fsub cadre_val prime_val)) (float_lit (1 / 100))
                           then [CadreAmountMismatch cadre_amount prime_str]
                           else [])))
                   [CadreAmountUnparsable])
         | None \<Rightarrow> Inr [CadreAmountNotFound]))"
    have inner_ok: "CadreAmountUnparsable \<notin> set ps" if "inner v = Inr ps" for v ps
    proof (cases "search_prime U (u_normalize U t)")
      case None
      with that show ?thesis by (auto simp: inner_def)
    next
      case (Some g)
      from prime_parses [OF wf Some] obtain cv
        where cv: "float_py U (replace_char 44 46 (remove_char 160 (remove_char 32 g))) = Inr cv"
        by blast
      from that Some show ?thesis
        unfolding inner_def by (auto simp: Let_def try_float_ok [OF cv] split: if_splits)
    qed
    from True ne r have
      "try_except_ValueError
         (bind_err (float_py U (replace_char 44 46 (remove_char 160 (remove_char 32 prime_str))))
            inner)
         [CadrePrimeUnparsable prime_str] = Inr pp"
      unfolding inner_def prime_str_def by (simp add: rule_cadre_prime_def Let_def)
    then show ?thesis using inner_ok
      by (cases rule: try_float_cases) auto
  qed
qed

text \<open>
  C9. The two problems of a failed conversion, "DEVIS : impossible d'interpreter le P.U
  TTC ..." (\<open>DevisPriceUnparsable\<close>) and "CADRE : impossible d'interpreter le montant de
  prime dans le cadre." (\<open>CadreAmountUnparsable\<close>), are in no verdict: the text captured
  by the amount pattern in a normalised text is a digit, then digits and spaces, then
  one comma or dot, then two digits, and with the spaces removed and the comma replaced
  by a dot \<open>float\<close> reads it. The character database is one with the properties
  \<open>ucd_wf\<close> of Unicode.
\<close>

theorem amount_parse_failures_never_emitted:
  assumes "ucd_wf U" and "analyze_homelior U dossier pdf_texts = Inr v"
  shows "DevisPriceUnparsable \<notin> set (problems v) \<and>
         CadreAmountUnparsable \<notin> set (problems v) \<and>
         (\<forall>n t dn g. find_devis U pdf_texts = Some (n, t, dn) \<and> search_price U dn = Some g \<longrightarrow>
            (\<exists>x. float_py U (replace_char 44 46 (remove_char 32 g)) = Inr x)) \<and>
         (\<forall>n t cn g. find_cadre U pdf_texts = Some (n, t, cn) \<and> search_prime U cn = Some g \<longrightarrow>
            (\<exists>x. float_py U (replace_char 44 46 (remove_char 160 (remove_char 32 g))) = Inr x))"
proof -
  have a: "DevisPriceUnparsable \<notin> set (problems v)"
  proof
    assume m: "DevisPriceUnparsable \<in> set (problems v)"
    from assms(2) m show False
    proof (cases rule: problem_origin)
      case (devis ps)
      show False
      proof (cases "find_devis U pdf_texts")
        case None
        with devis show False by (auto simp: rule_devis_def)
      next
        case (Some d)
        obtain n t dn where d: "d = (n, t, dn)" by (cases d)
        from Some d have dn: "dn = u_normalize U t" by (auto dest: find_devis_normalized)
        from devis(1) Some d obtain pp where pp: "rule_devis_price U dn = Inr pp"
          and ps: "ps = (if re_search U False (rx_devis_header U) dn = None
                         then [DevisHeaderMissing] else [])
            @ (if \<not> has_eclairage_ambiance_global dn (find_facture U pdf_texts) (find_ah U pdf_texts)
               then [DevisEclairageMissing] else [])
            @ pp @ rule_devis_date (resolve_date_devis U (find_cadre U pdf_texts) (find_facture U pdf_texts))
            @ (if \<not> has_reste_a_payer U dn then [DevisResteMissing] else [])"
          by (auto elim: rule_devis_parts)
        from devis(2) ps check_rule_devis_date [of DevisPriceUnparsable]
        have "DevisPriceUnparsable \<in> set pp" by (auto split: if_splits)
        with devis_price_never_unparsable [OF assms(1)] pp dn show False by blast
      qed
    next
      case (cadre ps)
      from check_rule_cadre [OF this] show False by simp
    next
      case other
      then show False by simp
    qed
  qed
  have b: "CadreAmountUnparsable \<notin> set (problems v)"
  proof
    assume m: "CadreAmountUnparsable \<in> set (problems v)"
    from assms(2) m show False
    proof (cases rule: problem_origin)
      case (devis ps)
      from check_rule_devis [OF this] show False by simp
    next
      case (cadre ps)
      show False
      proof (cases "find_cadre U pdf_texts")
        case None
        with cadre show False by (auto simp: rule_cadre_def)
      next
        case (Some d)
        obtain n t cn where d: "d = (n, t, cn)" by (cases d)
        from Some d have cn: "cn = u_normalize U t" by (auto dest: find_cadre_normalized)
        from cadre(1) Some d obtain pp where pp: "rule_cadre_prime U dossier cn = Inr pp"
          and ps: "ps = pp @ rule_cadre_date U cn
                     (resolve_date_devis U (Some (n, t, cn)) (find_facture U pdf_texts))"
          by (auto elim: rule_cadre_parts)
        from cadre(2) ps check_rule_cadre_date [of CadreAmountUnparsable]
        have "CadreAmountUnparsable \<in> set pp" by auto
        with cadre_amount_never_unparsable [OF assms(1)] pp cn show False by blast
      qed
    next
      case other
      then show False by simp
    qed
  qed
  have c: "\<forall>n t dn g. find_devis U pdf_texts = Some (n, t, dn) \<and> search_price U dn = Some g \<longrightarrow>
            (\<exists>x. float_py U (replace_char 44 46 (remove_char 32 g)) = Inr x)"
    using price_parses [OF assms(1)] by (auto dest!: find_devis_normalized)
  have d: "\<forall>n t cn g. find_cadre U pdf_texts = Some (n, t, cn) \<and> search_prime U cn = Some g \<longrightarrow>
            (\<exists>x. float_py U (replace_char 44 46 (remove_char 160 (remove_char 32 g))) = Inr x)"
    using prime_parses [OF assms(1)] by (auto dest!: find_cadre_normalized)
  from a b c d show ?thesis by (intro conjI)
qed

lemma amounts_verdict:
  "analyze_homelior ascii_ucd (example_dossier (lit ''2538,90''))
     [(lit ''devis.pdf'', lit ''mise en place de luminaires neufs 42,32''),
      (lit ''cadre.pdf'', lit ''une prime d un montant de 2 538,90 euros'')] =
   Inr \<lparr>status = lit ''non_conforme'',
        problems = [DevisHeaderMissing, DevisEclairageMissing, DevisDateUnknown, DevisResteMissing,
                    CadreDateLabelMissing, FactureAbsent, BLAbsent, AHAbsent, AFTAbsent]\<rparr>"
  by code_simp

lemma amounts_devis:
  "find_devis ascii_ucd
     [(lit ''devis.pdf'', lit ''mise en place de luminaires neufs 42,32''),
      (lit ''cadre.pdf'', lit ''une prime d un montant de 2 538,90 euros'')] =
   Some (lit ''devis.pdf'', lit ''mise en place de luminaires neufs 42,32'',
         lit ''mise en place de luminaires neufs 42,32'')"
  by code_simp

lemma amounts_cadre:
  "find_cadre ascii_ucd
     [(lit ''devis.pdf'', lit ''mise en place de luminaires neufs 42,32''),
      (lit ''cadre.pdf'', lit ''une prime d un montant de 2 538,90 euros'')] =
   Some (lit ''cadre.pdf'', lit ''une prime d un montant de 2 538,90 euros'',
         lit ''une prime d un montant de 2 538,90 euros'')"
  by code_simp

lemma amounts_price:
  "search_price ascii_ucd (lit ''mise en place de luminaires neufs 42,32'') = Some (lit ''42,32'')"
  by code_simp

lemma amounts_prime:
  "search_prime ascii_ucd (lit ''une prime d un montant de 2 538,90 euros'') = Some (lit ''2 538,90'')"
  by code_simp

theorem amount_parse_failures_never_emitted_witness:
  "ucd_wf ascii_ucd \<and>
   analyze_homelior ascii_ucd (example_dossier (lit ''2538,90''))
     [(lit ''devis.pdf'', lit ''mise en place de luminaires neufs 42,32''),
      (lit ''cadre.pdf'', lit ''une prime d un montant de 2 538,90 euros'')] =
   Inr \<lparr>status = lit ''non_conforme'',
        problems = [DevisHeaderMissing, DevisEclairageMissing, DevisDateUnknown, DevisResteMissing,
                    CadreDateLabelMissing, FactureAbsent, BLAbsent, AHAbsent, AFTAbsent]\<rparr> \<and>
   DevisPriceUnparsable \<notin> set [DevisHeaderMissing, DevisEclairageMissing, DevisDateUnknown,
        DevisResteMissing, CadreDateLabelMissing, FactureAbsent, BLAbsent, AHAbsent, AFTAbsent] \<and>
   CadreAmountUnparsable \<notin> set [DevisHeaderMissing, DevisEclairageMissing, DevisDateUnknown,
        DevisResteMissing, CadreDateLabelMissing, FactureAbsent, BLAbsent, AHAbsent, AFTAbsent] \<and>
   find_devis ascii_ucd
     [(lit ''devis.pdf'', lit ''mise en place de luminaires neufs 42,32''),
      (lit ''cadre.pdf'', lit ''une prime d un montant de 2 538,90 euros'')] =
   Some (lit ''devis.pdf'', lit ''mise en place de luminaires neufs 42,32'',
         lit ''mise en place de luminaires neufs 42,32'') \<and>
   find_cadre ascii_ucd
     [(lit ''devis.pdf'', lit ''mise en place de luminaires neufs 42,32''),
      (lit ''cadre.pdf'', lit ''une prime d un montant de 2 538,90 euros'')] =
   Some (lit ''cadre.pdf'', lit ''une prime d un montant de 2 538,90 euros'',
         lit ''une prime d un montant de 2 538,90 euros'') \<and>
   search_price ascii_ucd (lit ''mise en place de luminaires neufs 42,32'') = Some (lit ''42,32'') \<and>
   float_py ascii_ucd (replace_char 44 46 (remove_char 32 (lit ''42,32''))) =
     Inr (Fin (5956010507197481 / 140737488355328)) \<and>
   search_prime ascii_ucd (lit ''une prime d un montant de 2 538,90 euros'') = Some (lit ''2 538,90'') \<and>
   float_py ascii_ucd (replace_char 44 46 (remove_char 160 (remove_char 32 (lit ''2 538,90'')))) =
     Inr (Fin (5583100143520973 / 2199023255552))"
proof -
  have p: "float_py ascii_ucd (replace_char 44 46 (remove_char 32 (lit ''42,32''))) =
     Inr (Fin (5956010507197481 / 140737488355328))" by code_simp
  have c: "float_py ascii_ucd (replace_char 44 46 (remove_char 160 (remove_char 32 (lit ''2 538,90'')))) =
     Inr (Fin (5583100143520973 / 2199023255552))" by code_simp
  from amount_parse_failures_never_emitted [OF ascii_wf amounts_verdict]
    ascii_wf amounts_verdict amounts_devis amounts_cadre amounts_price amounts_prime p c
  show ?thesis by simp
qed

subsection \<open>The tolerance of one cent\<close>

lemma transform_ascii: "\<forall>c\<in>set s. c < 127 \<Longrightarrow> transform_decimal_and_space U s = s"
  by (induction s) auto

lemma float_py_ascii: "\<forall>c\<in>set s. c < 127 \<Longrightarrow> float_py U s = float_py ascii_ucd s"
  by (simp add: float_py_def transform_ascii)

lemma float_253890: "float_py ascii_ucd (lit ''2538.90'') = Inr (Fin (5583100143520973 / 2199023255552))"
  by code_simp

lemma float_253891: "float_py ascii_ucd (lit ''2538.91'') = Inr (Fin (697890266719191 / 274877906944))"
  by code_simp

lemma diff_253891_253890:
  "\<not> fgt (fabs (fsub (Fin (697890266719191 / 274877906944)) (Fin (5583100143520973 / 2199023255552))))
         (float_lit (1 / 100))"
  by code_simp

lemma lit_253890: "lit ''2538,90'' = [50, 53, 51, 56, 44, 57, 48]" "lit ''2538.90'' = [50, 53, 51, 56, 46, 57, 48]"
  "lit ''2538.91'' = [50, 53, 51, 56, 46, 57, 49]"
  by (simp_all add: lit_def)

lemma wf_strip_253890:
  assumes "ucd_wf U"
  shows "strip (isspace U) (lit ''2538,90'') = lit ''2538,90''"
proof -
  from assms have "isspace U 50 = isspace ascii_ucd 50" "isspace U 48 = isspace ascii_ucd 48"
    by (auto simp: ucd_wf_def)
  then have "\<not> isspace U 50" "\<not> isspace U 48" by (simp_all add: ascii_ucd_def)
  then show ?thesis unfolding lit_253890 by (intro strip_id) simp_all
qed

lemma scenario_C_verdict:
  "analyze_homelior ascii_ucd (example_dossier (lit ''2538,90''))
     [(lit ''cadre.pdf'', lit ''une prime d un montant de 2538.91 euros'')] =
   Inr \<lparr>status = lit ''non_conforme'',
        problems = [DevisAbsent, CadreDateLabelMissing, FactureAbsent, BLAbsent, AHAbsent, AFTAbsent]\<rparr>"
  by code_simp

text \<open>
  C3, as the specification states it, fails: with the field "Prime CEE" at "2538,90" and
  a file \<open>cadre.pdf\<close> whose text is "une prime d un montant de 2538.91 euros", the
  verdict has no problem of a mismatch of the amounts. The test of the code is strict,
  \<open>abs(cadre_val - prime_val) > 0.01\<close>, and the difference of the two floats is below
  the float 0.01.
\<close>

theorem scenario_C_counterexample:
  "dossier_fields (example_dossier (lit ''2538,90'')) (lit ''Prime CEE'') = Some (lit ''2538,90'') \<and>
   isin (lit ''une prime d un montant de 2538.91 euros'')
        (lit ''une prime d un montant de 2538.91 euros'') \<and>
   analyze_homelior ascii_ucd (example_dossier (lit ''2538,90''))
     [(lit ''cadre.pdf'', lit ''une prime d un montant de 2538.91 euros'')] =
   Inr \<lparr>status = lit ''non_conforme'',
        problems = [DevisAbsent, CadreDateLabelMissing, FactureAbsent, BLAbsent, AHAbsent, AFTAbsent]\<rparr>"
proof -
  have "dossier_fields (example_dossier (lit ''2538,90'')) (lit ''Prime CEE'') = Some (lit ''2538,90'')"
    by (simp add: example_dossier_def)
  moreover have "isin (lit ''une prime d un montant de 2538.91 euros'')
        (lit ''une prime d un montant de 2538.91 euros'')" by code_simp
  ultimately show ?thesis using scenario_C_verdict by simp
qed

lemma scenario_C_rule:
  assumes wf: "ucd_wf U"
    and f: "dossier_fields dossier (lit ''Prime CEE'') = Some (lit ''2538,90'')"
    and a: "search_prime U cn = Some (lit ''2538.91'')"
  shows "rule_cadre_prime U dossier cn = Inr [] \<or> rule_cadre_prime U dossier cn = Inr [CadrePhraseMissing]"
proof (cases "isin (lit ''une prime d un montant de'') cn")
  case False
  then show ?thesis by (simp add: rule_cadre_prime_def)
next
  case True
  have n1: "replace_char 44 46 (remove_char 160 (remove_char 32 (lit ''2538,90''))) = lit ''2538.90''"
    unfolding lit_253890 by (simp add: replace_char_def remove_char_def)
  have n2: "replace_char 44 46 (remove_char 160 (remove_char 32 (lit ''2538.91''))) = lit ''2538.91''"
    unfolding lit_253890 by (simp add: replace_char_def remove_char_def)
  have p: "float_py U (lit ''2538.90'') = Inr (Fin (5583100143520973 / 2199023255552))"
    using float_py_ascii [of "lit ''2538.90''" U] float_253890 unfolding lit_253890 by simp
  have c: "float_py U (lit ''2538.91'') = Inr (Fin (697890266719191 / 274877906944))"
    using float_py_ascii [of "lit ''2538.91''" U] float_253891 unfolding lit_253890 by simp
  have ne: "lit ''2538,90'' \<noteq> []" by (simp add: lit_253890)
  have "rule_cadre_prime U dossier cn = Inr []"
    using True diff_253891_253890
    by (simp add: rule_cadre_prime_def f wf_strip_253890 [OF wf] ne n1 n2 p c a Let_def
          try_except_ValueError_def bind_err_def)
  then show ?thesis ..
qed

text \<open>
  C3, amended. If the field "Prime CEE" of the case is "2538,90" and the amount captured
  on the frame document is "2538.91", then the verdict has no problem of a mismatch of
  the amounts.
\<close>

theorem scenario_C_no_mismatch:
  assumes "ucd_wf U"
    and "dossier_fields dossier (lit ''Prime CEE'') = Some (lit ''2538,90'')"
    and "find_cadre U pdf_texts = Some (cadre_name, cadre_txt, cadre_norm)"
    and "search_prime U cadre_norm = Some (lit ''2538.91'')"
    and "analyze_homelior U dossier pdf_texts = Inr v"
  shows "CadreAmountMismatch a p \<notin> set (problems v)"
proof
  assume m: "CadreAmountMismatch a p \<in> set (problems v)"
  from assms(5) m show False
  proof (cases rule: problem_origin)
    case (devis ps)
    from check_rule_devis [OF this] show False by simp
  next
    case (cadre ps)
    from cadre(1) assms(3) obtain pp where pp: "rule_cadre_prime U dossier cadre_norm = Inr pp"
      and ps: "ps = pp @ rule_cadre_date U cadre_norm
                 (resolve_date_devis U (Some (cadre_name, cadre_txt, cadre_norm)) (find_facture U pdf_texts))"
      by (auto elim: rule_cadre_parts)
    from cadre(2) ps check_rule_cadre_date [of "CadreAmountMismatch a p"]
    have "CadreAmountMismatch a p \<in> set pp" by auto
    with scenario_C_rule [OF assms(1,2,4)] pp show False by auto
  next
    case other
    then show False by simp
  qed
qed

lemma scenario_C_cadre:
  "find_cadre ascii_ucd [(lit ''cadre.pdf'', lit ''une prime d un montant de 2538.91 euros'')] =
     Some (lit ''cadre.pdf'', lit ''une prime d un montant de 2538.91 euros'',
           lit ''une prime d un montant de 2538.91 euros'')"
  by code_simp

lemma scenario_C_amount:
  "search_prime ascii_ucd (lit ''une prime d un montant de 2538.91 euros'') = Some (lit ''2538.91'')"
  by code_simp

theorem scenario_C_no_mismatch_witness:
  "ucd_wf ascii_ucd \<and>
   dossier_fields (example_dossier (lit ''2538,90'')) (lit ''Prime CEE'') = Some (lit ''2538,90'') \<and>
   find_cadre ascii_ucd [(lit ''cadre.pdf'', lit ''une prime d un montant de 2538.91 euros'')] =
     Some (lit ''cadre.pdf'', lit ''une prime d un montant de 2538.91 euros'',
           lit ''une prime d un montant de 2538.91 euros'') \<and>
   search_prime ascii_ucd (lit ''une prime d un montant de 2538.91 euros'') = Some (lit ''2538.91'') \<and>
   analyze_homelior ascii_ucd (example_dossier (lit ''2538,90''))
     [(lit ''cadre.pdf'', lit ''une prime d un montant de 2538.91 euros'')] =
   Inr \<lparr>status = lit ''non_conforme'',
        problems = [DevisAbsent, CadreDateLabelMissing, FactureAbsent, BLAbsent, AHAbsent, AFTAbsent]\<rparr> \<and>
   CadreAmountMismatch (lit ''2538.91'') (lit ''2538,90'') \<notin>
     set [DevisAbsent, CadreDateLabelMissing, FactureAbsent, BLAbsent, AHAbsent, AFTAbsent]"
proof -
  have f: "dossier_fields (example_dossier (lit ''2538,90'')) (lit ''Prime CEE'') = Some (lit ''2538,90'')"
    by (simp add: example_dossier_def)
  from scenario_C_no_mismatch [OF ascii_wf f scenario_C_cadre scenario_C_amount scenario_C_verdict,
      of "lit ''2538.91''" "lit ''2538,90''"]
    ascii_wf f scenario_C_cadre scenario_C_amount scenario_C_verdict
  show ?thesis by simp
qed

text \<open>
  C2. The mismatch of the amounts is to be reported exactly when the two amounts differ
  by more than 0.01, a difference of exactly 0.01 being accepted. The code compares
  floats: with the field "Prime CEE" at "2538,90" and the amount "2538.89" on the frame,
  two amounts that differ by exactly 0.01, the difference of the two floats is above
  the float 0.01 and the mismatch is reported.
\<close>

theorem one_cent_difference_flagged:
  "\<bar>253889 / 100 - 253890 / 100 :: rat\<bar> = 1 / 100 \<and>
   float_py ascii_ucd (lit ''2538.89'') = Inr (Fin (5583078153288417 / 2199023255552)) \<and>
   float_py ascii_ucd (lit ''2538.90'') = Inr (Fin (5583100143520973 / 2199023255552)) \<and>
   fgt (fabs (fsub (Fin (5583078153288417 / 2199023255552)) (Fin (5583100143520973 / 2199023255552))))
       (float_lit (1 / 100)) \<and>
   analyze_homelior ascii_ucd (example_dossier (lit ''2538,90''))
     [(lit ''cadre.pdf'', lit ''une prime d un montant de 2538.89 euros'')] =
   Inr \<lparr>status = lit ''non_conforme'',
        problems = [DevisAbsent, CadreAmountMismatch (lit ''2538.89'') (lit ''2538,90''),
                    CadreDateLabelMissing, FactureAbsent, BLAbsent, AHAbsent, AFTAbsent]\<rparr>"
proof -
  have a: "float_py ascii_ucd (lit ''2538.89'') = Inr (Fin (5583078153288417 / 2199023255552))"
    by code_simp
  have b: "fgt (fabs (fsub (Fin (5583078153288417 / 2199023255552))
                            (Fin (5583100143520973 / 2199023255552)))) (float_lit (1 / 100))"
    by code_simp
  have c: "analyze_homelior ascii_ucd (example_dossier (lit ''2538,90''))
     [(lit ''cadre.pdf'', lit ''une prime d un montant de 2538.89 euros'')] =
   Inr \<lparr>status = lit ''non_conforme'',
        problems = [DevisAbsent, CadreAmountMismatch (lit ''2538.89'') (lit ''2538,90''),
                    CadreDateLabelMissing, FactureAbsent, BLAbsent, AHAbsent, AFTAbsent]\<rparr>"
    by code_simp
  have d: "\<bar>253889 / 100 - 253890 / 100 :: rat\<bar> = 1 / 100" by simp
  from a b c d float_253890 show ?thesis by (intro conjI)
qed

section \<open>What becomes a problem\<close>







section \<open>Evaluations on concrete bundles\<close>

text \<open>The theorems above, applied to bundles of ASCII texts.\<close>

lemma example_verdict:
  "analyze_homelior ascii_ucd (example_dossier (lit ''2538,90'')) example_bundle =
     Inr \<lparr>status = lit ''conforme'', problems = []\<rparr>"
  by code_simp

theorem status_iff_no_problems_witness:
  "analyze_homelior ascii_ucd (example_dossier (lit ''2538,90'')) example_bundle =
     Inr \<lparr>status = lit ''conforme'', problems = []\<rparr> \<and>
   (status \<lparr>status = lit ''conforme'', problems = []\<rparr> = lit ''conforme'' \<longleftrightarrow>
      problems \<lparr>status = lit ''conforme'', problems = []\<rparr> = []) \<and>
   (status \<lparr>status = lit ''conforme'', problems = []\<rparr> = lit ''non_conforme'' \<longleftrightarrow>
      problems \<lparr>status = lit ''conforme'', problems = []\<rparr> \<noteq> [])"
  using example_verdict status_iff_no_problems [OF example_verdict] by simp

lemma label_only_verdict:
  "analyze_homelior ascii_ucd (example_dossier [])
     [(lit ''cadre.pdf'', lit ''Date de cette proposition : 15/01/2024''),
      (lit ''facture.pdf'', lit ''devis du 20/01/2024'')] =
   Inr \<lparr>status = lit ''non_conforme'',
        problems = [DevisAbsent, CadrePhraseMissing, FactureResteMissing, BLAbsent, AHAbsent, AFTAbsent]\<rparr>"
  by code_simp

theorem cadre_date_mismatch_never_emitted_witness:
  "analyze_homelior ascii_ucd (example_dossier [])
     [(lit ''cadre.pdf'', lit ''Date de cette proposition : 15/01/2024''),
      (lit ''facture.pdf'', lit ''devis du 20/01/2024'')] =
   Inr \<lparr>status = lit ''non_conforme'',
        problems = [DevisAbsent, CadrePhraseMissing, FactureResteMissing, BLAbsent, AHAbsent, AFTAbsent]\<rparr> \<and>
   CadreDateMismatch \<notin> set [DevisAbsent, CadrePhraseMissing, FactureResteMissing, BLAbsent, AHAbsent, AFTAbsent]"
  using label_only_verdict cadre_date_mismatch_never_emitted [OF label_only_verdict] by simp

lemma devis_only_verdict:
  "analyze_homelior ascii_ucd (example_dossier []) [(lit ''devis.pdf'', lit ''Devis sans prix'')] =
     Inr \<lparr>status = lit ''non_conforme'', problems =
       [DevisHeaderMissing, DevisEclairageMissing, DevisDateUnknown, DevisResteMissing,
        CadreAbsent, FactureAbsent, BLAbsent, AHAbsent, AFTAbsent]\<rparr>"
  by code_simp

lemma devis_only_found:
  "find_devis ascii_ucd [(lit ''devis.pdf'', lit ''Devis sans prix'')] =
     Some (lit ''devis.pdf'', lit ''Devis sans prix'', lit ''devis sans prix'')"
  by code_simp

lemma devis_only_phrase:
  "\<not> isin (lit ''mise en place de luminaires neufs'') (lit ''devis sans prix'')"
  by code_simp

theorem unit_price_check_skipped_witness:
  "find_devis ascii_ucd [(lit ''devis.pdf'', lit ''Devis sans prix'')] =
     Some (lit ''devis.pdf'', lit ''Devis sans prix'', lit ''devis sans prix'') \<and>
   \<not> isin (lit ''mise en place de luminaires neufs'') (lit ''devis sans prix'') \<and>
   analyze_homelior ascii_ucd (example_dossier []) [(lit ''devis.pdf'', lit ''Devis sans prix'')] =
     Inr \<lparr>status = lit ''non_conforme'', problems =
       [DevisHeaderMissing, DevisEclairageMissing, DevisDateUnknown, DevisResteMissing,
        CadreAbsent, FactureAbsent, BLAbsent, AHAbsent, AFTAbsent]\<rparr> \<and>
   DevisPriceMissing \<notin> set [DevisHeaderMissing, DevisEclairageMissing, DevisDateUnknown,
        DevisResteMissing, CadreAbsent, FactureAbsent, BLAbsent, AHAbsent, AFTAbsent]"
  using devis_only_found devis_only_phrase devis_only_verdict
    unit_price_check_skipped [OF devis_only_found devis_only_phrase devis_only_verdict]
  by simp

lemma chain_label:
  "search_date_proposition ascii_ucd (lit ''date de cette proposition : 15/01/2024'') = Some (lit ''15/01/2024'')"
  by code_simp

lemma chain_parse:
  "u_parse_date ascii_ucd (lit ''15/01/2024'') = Some \<lparr>year = 2024, month = 1, day = 15\<rparr>"
  by code_simp

lemma chain_invoice:
  "Option.bind (search_devis_du ascii_ucd (lit ''devis du 20/01/2024'')) (u_parse_date ascii_ucd)
     = Some \<lparr>year = 2024, month = 1, day = 20\<rparr>"
  by code_simp

theorem quote_date_fallback_chain_witness:
  "search_date_proposition ascii_ucd (lit ''date de cette proposition : 15/01/2024'') = Some (lit ''15/01/2024'') \<and>
   u_parse_date ascii_ucd (lit ''15/01/2024'') = Some \<lparr>year = 2024, month = 1, day = 15\<rparr> \<and>
   Option.bind (search_devis_du ascii_ucd (lit ''devis du 20/01/2024'')) (u_parse_date ascii_ucd)
     = Some \<lparr>year = 2024, month = 1, day = 20\<rparr> \<and>
   resolve_date_devis ascii_ucd
     (Some (lit ''cadre.pdf'', lit ''Date de cette proposition : 15/01/2024'', lit ''date de cette proposition : 15/01/2024''))
     (Some (lit ''facture.pdf'', lit ''devis du 20/01/2024'', lit ''devis du 20/01/2024''))
     = Some \<lparr>year = 2024, month = 1, day = 15\<rparr>"
  using chain_label chain_parse chain_invoice
    quote_date_fallback_chain [of ascii_ucd
      "Some (lit ''cadre.pdf'', lit ''Date de cette proposition : 15/01/2024'', lit ''date de cette proposition : 15/01/2024'')"
      "Some (lit ''facture.pdf'', lit ''devis du 20/01/2024'', lit ''devis du 20/01/2024'')"]
  by blast

end
